theory Spec2Isabelle
  imports Complex_Main "HOL-Library.AList" "HOL-Library.Code_Target_Nat"
begin

section \<open>Strings and character classes\<close>

text \<open>
  Python strings are modelled as \<open>string\<close> (lists of 8-bit characters, read as the
  code points below 256). The predicates below are the ones the source relies on through
  \<open>str.strip\<close>, \<open>str.isdigit\<close>, \<open>str.upper\<close> and the classes \<open>\d\<close>, \<open>\w\<close>,
  \<open>\s\<close> of the \<open>re\<close> module.
\<close>

definition ord :: "char \<Rightarrow> nat" where
  "ord c = of_char c"

definition is_digit :: "char \<Rightarrow> bool" where
  "is_digit c = (48 \<le> ord c \<and> ord c \<le> 57)"

definition is_upper :: "char \<Rightarrow> bool" where
  "is_upper c = (65 \<le> ord c \<and> ord c \<le> 90)"

definition is_lower :: "char \<Rightarrow> bool" where
  "is_lower c = (97 \<le> ord c \<and> ord c \<le> 122)"

definition is_word :: "char \<Rightarrow> bool" where
  "is_word c = (is_digit c \<or> is_upper c \<or> is_lower c \<or> ord c = 95 \<or>
     ord c \<in> {170, 178, 179, 181, 185, 186, 188, 189, 190} \<or>
     (192 \<le> ord c \<and> ord c \<noteq> 215 \<and> ord c \<noteq> 247))"

definition is_space :: "char \<Rightarrow> bool" where
  "is_space c = ((9 \<le> ord c \<and> ord c \<le> 13) \<or> (28 \<le> ord c \<and> ord c \<le> 32) \<or>
     ord c = 133 \<or> ord c = 160)"

text \<open>Letters that have another case: the ASCII ones and those of the upper half
  (\<open>U+00C0\<close> to \<open>U+00DE\<close> without the multiplication sign, \<open>U+00E0\<close> to \<open>U+00FE\<close>
  without the division sign).\<close>

definition is_capital :: "char \<Rightarrow> bool" where
  "is_capital c = (is_upper c \<or> (192 \<le> ord c \<and> ord c \<le> 222 \<and> ord c \<noteq> 215))"

definition is_small :: "char \<Rightarrow> bool" where
  "is_small c = (is_lower c \<or> (224 \<le> ord c \<and> ord c \<le> 254 \<and> ord c \<noteq> 247))"

text \<open>The lower case of a character, which \<open>re.IGNORECASE\<close> compares: every capital
  of the model has its small letter in the model.\<close>

definition lower_char :: "char \<Rightarrow> char" where
  "lower_char c = (if is_capital c then char_of (ord c + 32) else c)"

text \<open>\<open>str.upper()\<close>, the full case mapping: a small letter becomes its capital and the
  sharp s becomes \<open>SS\<close>. The capitals \<open>U+039C\<close> and \<open>U+0178\<close> of the micro sign and of
  y with diaeresis are no characters of the model; in a result of \<open>upper\<close> the codes 181
  and 255, which no result of \<open>str.upper()\<close> contains, stand for them.\<close>

definition upper_char :: "char \<Rightarrow> string" where
  "upper_char c =
     (if ord c = 223 then ''SS''
      else if is_small c then [char_of (ord c - 32)]
      else [c])"

definition upper :: "string \<Rightarrow> string" where
  "upper s = concat (map upper_char s)"

text \<open>\<open>str.strip()\<close>: leading and trailing whitespace removed.\<close>

definition strip :: "string \<Rightarrow> string" where
  "strip s = rev (dropWhile is_space (rev (dropWhile is_space s)))"

text \<open>\<open>str.isdigit()\<close>: non-empty and every character a digit (the superscripts
  one, two and three count as digits for \<open>isdigit\<close>, not for \<open>\d\<close>).\<close>

definition isdigit :: "string \<Rightarrow> bool" where
  "isdigit s = (s \<noteq> [] \<and> list_all (\<lambda>c. is_digit c \<or> ord c \<in> {178, 179, 185}) s)"

text \<open>\<open>int(s)\<close> on a string of ASCII digits.\<close>

definition digit_val :: "char \<Rightarrow> nat" where
  "digit_val c = ord c - 48"

definition int_of_digits :: "string \<Rightarrow> nat" where
  "int_of_digits s = foldl (\<lambda>n c. 10 * n + digit_val c) 0 s"

text \<open>\<open>needle in haystack\<close> on strings.\<close>

fun contains :: "string \<Rightarrow> string \<Rightarrow> bool" where
  "contains [] w = (w = [])"
| "contains (c # cs) w = (take (length w) (c # cs) = w \<or> contains cs w)"

text \<open>\<open>s.split('\n')\<close>: always at least one piece.\<close>

fun split_nl :: "string \<Rightarrow> string list" where
  "split_nl [] = [[]]"
| "split_nl (c # cs) =
     (if c = CHR 0x0A then [] # split_nl cs
      else (case split_nl cs of [] \<Rightarrow> [[c]] | l # ls \<Rightarrow> (c # l) # ls))"

section \<open>Regular expressions as the source writes them\<close>

text \<open>
  The patterns of the source use literals, the classes \<open>\d \w \s \S .\<close>, bracket sets,
  the quantifiers \<open>? * + {n} {m,n}\<close> (greedy and lazy), capturing and non-capturing
  groups, alternation and the anchors \<open>^ $ \b\<close>. Every unbounded quantifier of the source
  stands on a single character class; groups are repeated a fixed number of times or made
  optional. The syntax below has exactly these forms, and \<open>m\<close> is the backtracking
  matcher of \<open>re\<close>: alternatives left to right, a greedy quantifier tries the longer
  match first, a lazy one the shorter.
\<close>

datatype atom = Lit char | Rng char char | Digit | Word | Space | NonSpace | Dot

datatype cls = In "atom list" | NotIn "atom list"

datatype rx =
    Eps
  | One cls
  | Seq rx rx
  | Alt rx rx
  | Opt rx
  | Times rx nat
  | Rep cls nat "nat option" bool
  | Grp string rx
  | Bol
  | Eol
  | Wordb

text \<open>A frame of the matcher's stack: a pattern still to be matched, or the end of a
  capturing group with the input at which the group began.\<close>

datatype item = R rx | GEnd string string

text \<open>The matcher's state: the character before the position (\<open>None\<close> at the start of
  the subject), the input from the position on, and the captures made so far (newest first).\<close>

type_synonym mstate = "char option \<times> string \<times> (string \<times> string) list"

text \<open>One character against one member of a class. With \<open>re.IGNORECASE\<close> the
  members of the class are lowered when the pattern is compiled, and the character of the
  subject is lowered before it is looked up among them.\<close>

fun atom_match :: "bool \<Rightarrow> atom \<Rightarrow> char \<Rightarrow> bool" where
  "atom_match ci (Lit c) x = (if ci then lower_char x = lower_char c else x = c)"
| "atom_match ci (Rng a b) x =
     (if ci then list_ex (\<lambda>i. lower_char (char_of i) = lower_char x) [ord a..<Suc (ord b)]
      else ord a \<le> ord x \<and> ord x \<le> ord b)"
| "atom_match ci Digit x = is_digit x"
| "atom_match ci Word x = is_word x"
| "atom_match ci Space x = is_space x"
| "atom_match ci NonSpace x = (\<not> is_space x)"
| "atom_match ci Dot x = (x \<noteq> CHR 0x0A)"

fun cls_match :: "bool \<Rightarrow> cls \<Rightarrow> char \<Rightarrow> bool" where
  "cls_match ci (In as) x = list_ex (\<lambda>a. atom_match ci a x) as"
| "cls_match ci (NotIn as) x = (\<not> list_ex (\<lambda>a. atom_match ci a x) as)"

fun sz :: "rx \<Rightarrow> nat" where
  "sz (Seq a b) = 1 + sz a + sz b"
| "sz (Alt a b) = 1 + sz a + sz b"
| "sz (Opt a) = 1 + sz a"
| "sz (Times a n) = 1 + n * (1 + sz a)"
| "sz (Grp g a) = 2 + sz a"
| "sz r = 1"

fun isz :: "item \<Rightarrow> nat" where
  "isz (R r) = sz r"
| "isz (GEnd g s) = 1"

definition dec :: "nat option \<Rightarrow> nat option" where
  "dec hi = map_option (\<lambda>n. n - 1) hi"

definition at_wordb :: "char option \<Rightarrow> string \<Rightarrow> bool" where
  "at_wordb p rest =
     ((case p of None \<Rightarrow> False | Some c \<Rightarrow> is_word c) \<noteq>
      (case rest of [] \<Rightarrow> False | c # cs \<Rightarrow> is_word c))"

function (sequential) m :: "bool \<Rightarrow> item list \<Rightarrow> mstate \<Rightarrow> mstate option" where
  "m ci [] s = Some s"
| "m ci (GEnd g start # k) (p, rest, caps) =
     m ci k (p, rest, (g, take (length start - length rest) start) # caps)"
| "m ci (R Eps # k) s = m ci k s"
| "m ci (R (One c) # k) (p, [], caps) = None"
| "m ci (R (One c) # k) (p, x # xs, caps) =
     (if cls_match ci c x then m ci k (Some x, xs, caps) else None)"
| "m ci (R (Seq a b) # k) s = m ci (R a # R b # k) s"
| "m ci (R (Alt a b) # k) s =
     (case m ci (R a # k) s of Some r \<Rightarrow> Some r | None \<Rightarrow> m ci (R b # k) s)"
| "m ci (R (Opt a) # k) s =
     (case m ci (R a # k) s of Some r \<Rightarrow> Some r | None \<Rightarrow> m ci k s)"
| "m ci (R (Times a 0) # k) s = m ci k s"
| "m ci (R (Times a (Suc n)) # k) s = m ci (R a # R (Times a n) # k) s"
| "m ci (R (Rep c (Suc lo) hi g) # k) (p, [], caps) = None"
| "m ci (R (Rep c (Suc lo) hi g) # k) (p, x # xs, caps) =
     (if cls_match ci c x then m ci (R (Rep c lo (dec hi) g) # k) (Some x, xs, caps) else None)"
| "m ci (R (Rep c 0 hi g) # k) (p, [], caps) = m ci k (p, [], caps)"
| "m ci (R (Rep c 0 hi g) # k) (p, x # xs, caps) =
     (if hi = Some 0 \<or> \<not> cls_match ci c x then m ci k (p, x # xs, caps)
      else if g then
        (case m ci (R (Rep c 0 (dec hi) g) # k) (Some x, xs, caps) of
           Some r \<Rightarrow> Some r
         | None \<Rightarrow> m ci k (p, x # xs, caps))
      else
        (case m ci k (p, x # xs, caps) of
           Some r \<Rightarrow> Some r
         | None \<Rightarrow> m ci (R (Rep c 0 (dec hi) g) # k) (Some x, xs, caps)))"
| "m ci (R (Grp g a) # k) (p, rest, caps) = m ci (R a # GEnd g rest # k) (p, rest, caps)"
| "m ci (R Bol # k) (p, rest, caps) = (if p = None then m ci k (p, rest, caps) else None)"
| "m ci (R Eol # k) (p, rest, caps) =
     (if rest = [] \<or> rest = [CHR 0x0A] then m ci k (p, rest, caps) else None)"
| "m ci (R Wordb # k) (p, rest, caps) =
     (if at_wordb p rest then m ci k (p, rest, caps) else None)"
  by pat_completeness auto

termination
  by (relation "measures [\<lambda>(ci, k, (p, rest, caps)). length rest,
                          \<lambda>(ci, k, s). sum_list (map isz k)]") auto

text \<open>\<open>re.match\<close>: the pattern at the start of the subject. The result is the text of
  the whole match and the captures.\<close>

type_synonym rmatch = "string \<times> (string \<times> string) list"

definition match_at :: "bool \<Rightarrow> rx \<Rightarrow> char option \<Rightarrow> string \<Rightarrow> (rmatch \<times> char option \<times> string) option" where
  "match_at ci r p s =
     (case m ci [R r] (p, s, []) of
        None \<Rightarrow> None
      | Some (p', rest, caps) \<Rightarrow> Some ((take (length s - length rest) s, caps), p', rest))"

definition re_match :: "bool \<Rightarrow> rx \<Rightarrow> string \<Rightarrow> rmatch option" where
  "re_match ci r s = map_option fst (match_at ci r None s)"

text \<open>\<open>re.search\<close>: the first position, from the left, at which the pattern matches.\<close>

fun search_from :: "bool \<Rightarrow> rx \<Rightarrow> char option \<Rightarrow> string \<Rightarrow> rmatch option" where
  "search_from ci r p [] = map_option fst (match_at ci r p [])"
| "search_from ci r p (x # xs) =
     (case match_at ci r p (x # xs) of
        Some res \<Rightarrow> Some (fst res)
      | None \<Rightarrow> search_from ci r (Some x) xs)"

definition re_search :: "bool \<Rightarrow> rx \<Rightarrow> string \<Rightarrow> rmatch option" where
  "re_search ci r s = search_from ci r None s"

text \<open>\<open>re.finditer\<close>: the matches from left to right, none overlapping; after an empty
  match the scan moves on by one character.\<close>

function finditer_from :: "bool \<Rightarrow> rx \<Rightarrow> char option \<Rightarrow> string \<Rightarrow> rmatch list" where
  "finditer_from ci r p s =
     (case match_at ci r p s of
        None \<Rightarrow> (case s of [] \<Rightarrow> [] | x # xs \<Rightarrow> finditer_from ci r (Some x) xs)
      | Some (res, p', rest) \<Rightarrow>
          (if length rest < length s then res # finditer_from ci r p' rest
           else res # (case s of [] \<Rightarrow> [] | x # xs \<Rightarrow> finditer_from ci r (Some x) xs)))"
  by pat_completeness auto

termination
  by (relation "measure (\<lambda>(ci, r, p, s). length s)") auto

definition finditer :: "bool \<Rightarrow> rx \<Rightarrow> string \<Rightarrow> rmatch list" where
  "finditer ci r s = finditer_from ci r None s"

text \<open>\<open>match.group(g)\<close> for a group that took part in the match.\<close>

definition group :: "rmatch \<Rightarrow> string \<Rightarrow> string option" where
  "group res g = map_of (snd res) g"

text \<open>Pattern-building shorthands.\<close>

definition chr :: "char \<Rightarrow> rx" where
  "chr c = One (In [Lit c])"

fun lit :: "string \<Rightarrow> rx" where
  "lit [] = Eps"
| "lit [c] = chr c"
| "lit (c # cs) = Seq (chr c) (lit cs)"

fun seqs :: "rx list \<Rightarrow> rx" where
  "seqs [] = Eps"
| "seqs [r] = r"
| "seqs (r # rs) = Seq r (seqs rs)"

fun alts :: "rx list \<Rightarrow> rx" where
  "alts [] = Eps"
| "alts [r] = r"
| "alts (r # rs) = Alt r (alts rs)"

definition plus :: "atom \<Rightarrow> rx" where
  "plus a = Rep (In [a]) 1 None True"

definition star :: "atom \<Rightarrow> rx" where
  "star a = Rep (In [a]) 0 None True"

definition lazy_star :: "atom \<Rightarrow> rx" where
  "lazy_star a = Rep (In [a]) 0 None False"

definition lazy_plus :: "atom \<Rightarrow> rx" where
  "lazy_plus a = Rep (In [a]) 1 None False"

definition exactly :: "nat \<Rightarrow> atom \<Rightarrow> rx" where
  "exactly n a = Rep (In [a]) n (Some n) True"

definition between :: "nat \<Rightarrow> nat \<Rightarrow> atom \<Rightarrow> rx" where
  "between lo hi a = Rep (In [a]) lo (Some hi) True"

text \<open>The named groups of a pattern, for \<open>match.groupdict()\<close>.\<close>

fun named_groups :: "rx \<Rightarrow> string list" where
  "named_groups (Seq a b) = named_groups a @ named_groups b"
| "named_groups (Alt a b) = named_groups a @ named_groups b"
| "named_groups (Opt a) = named_groups a"
| "named_groups (Times a n) = named_groups a"
| "named_groups (Grp g a) = g # named_groups a"
| "named_groups r = []"


section \<open>The format registry\<close>

text \<open>\<open>LOG_PATTERNS\<close>, in the order of the dictionary literal (a Python dictionary is
  iterated in insertion order). Each pattern is the source's regular expression, form by
  form; the double quote is \<open>CHR 0x22\<close>.\<close>

record log_config =
  pattern :: rx
  timestamp_format :: "string option"
  level_map :: "(string \<times> string) list option"

definition hms :: rx where
  \<comment> \<open>\<open>\d{2}:\d{2}:\d{2}\<close>\<close>
  "hms = seqs [exactly 2 Digit, chr CHR '':'', exactly 2 Digit, chr CHR '':'', exactly 2 Digit]"

definition ymd :: rx where
  \<comment> \<open>\<open>\d{4}-\d{2}-\d{2}\<close>\<close>
  "ymd = seqs [exactly 4 Digit, chr CHR ''-'', exactly 2 Digit, chr CHR ''-'', exactly 2 Digit]"

definition dotted_quad :: rx where
  \<comment> \<open>\<open>\d+\.\d+\.\d+\.\d+\<close>\<close>
  "dotted_quad = seqs [plus Digit, chr CHR ''.'', plus Digit, chr CHR ''.'', plus Digit,
     chr CHR ''.'', plus Digit]"

definition not_rbracket_plus :: rx where
  "not_rbracket_plus = Rep (NotIn [Lit CHR '']'']) 1 None True"

definition not_quote_star :: rx where
  "not_quote_star = Rep (NotIn [Lit CHR 0x22]) 0 None True"

definition syslog_rx :: rx where
  "syslog_rx = seqs [Bol,
     Grp ''timestamp'' (seqs [exactly 3 Word, plus Space, between 1 2 Digit, plus Space, hms]),
     plus Space, Grp ''hostname'' (plus NonSpace),
     plus Space, Grp ''program'' (lazy_plus NonSpace),
     Opt (seqs [chr CHR ''['', Grp ''pid'' (plus Digit), chr CHR '']'']),
     chr CHR '':'', star Space, Grp ''message'' (star Dot), Eol]"

definition request_rx :: rx where
  \<comment> \<open>\<open>"(?P<method>\S+)\s+(?P<url>\S+)\s+(?P<protocol>\S+)"\s+(?P<status>\d+)\s+(?P<size>\S+)\<close>\<close>
  "request_rx = seqs [chr CHR 0x22, Grp ''method'' (plus NonSpace), plus Space,
     Grp ''url'' (plus NonSpace), plus Space, Grp ''protocol'' (plus NonSpace), chr CHR 0x22,
     plus Space, Grp ''status'' (plus Digit), plus Space, Grp ''size'' (plus NonSpace)]"

definition apache_access_rx :: rx where
  "apache_access_rx = seqs [Bol, Grp ''remote_addr'' (plus NonSpace),
     plus Space, plus NonSpace, plus Space, plus NonSpace, plus Space,
     chr CHR ''['', Grp ''timestamp'' not_rbracket_plus, chr CHR '']'', plus Space,
     request_rx,
     Opt (seqs [plus Space, chr CHR 0x22, Grp ''referer'' not_quote_star, chr CHR 0x22]),
     star Space,
     Opt (seqs [chr CHR 0x22, Grp ''user_agent'' not_quote_star, chr CHR 0x22])]"

definition nginx_access_rx :: rx where
  "nginx_access_rx = seqs [Bol, Grp ''remote_addr'' (plus NonSpace),
     plus Space, chr CHR ''-'', plus Space, plus NonSpace, plus Space,
     chr CHR ''['', Grp ''timestamp'' not_rbracket_plus, chr CHR '']'', plus Space,
     request_rx,
     plus Space, chr CHR 0x22, Grp ''referer'' not_quote_star, chr CHR 0x22,
     plus Space, chr CHR 0x22, Grp ''user_agent'' not_quote_star, chr CHR 0x22]"

definition firewall_rx :: rx where
  "firewall_rx = seqs [lazy_star Dot,
     Grp ''action'' (alts [lit ''ACCEPT'', lit ''DENY'', lit ''DROP'', lit ''REJECT'']),
     lazy_star Dot, lit ''SRC='', Grp ''src_ip'' dotted_quad,
     lazy_star Dot, lit ''DST='', Grp ''dst_ip'' dotted_quad,
     lazy_star Dot, Opt (Seq (lit ''SPT='') (Grp ''src_port'' (plus Digit))),
     lazy_star Dot, Opt (Seq (lit ''DPT='') (Grp ''dst_port'' (plus Digit))),
     lazy_star Dot, Opt (Seq (lit ''PROTO='') (Grp ''protocol'' (plus Word)))]"

definition cisco_syslog_rx :: rx where
  "cisco_syslog_rx = seqs [Bol,
     Grp ''timestamp'' (seqs [exactly 3 Word, plus Space, between 1 2 Digit, plus Space, hms,
       Opt (Seq (chr CHR ''.'') (exactly 3 Digit))]),
     star Space, Opt (Grp ''timezone'' (plus NonSpace)),
     star Space, Opt (chr CHR '':''), star Space, Opt (chr CHR ''%''),
     Grp ''facility'' (plus Word), chr CHR ''-'', Grp ''severity'' (plus Digit), chr CHR ''-'',
     Grp ''mnemonic'' (plus Word), chr CHR '':'', star Space, Grp ''message'' (star Dot), Eol]"

definition windows_event_rx :: rx where
  "windows_event_rx = seqs [Bol,
     Grp ''timestamp'' (seqs [ymd, plus Space, hms]),
     plus Space, Grp ''level'' (plus Word), plus Space, Grp ''event_id'' (plus Digit),
     plus Space, Grp ''source'' (plus NonSpace), plus Space, Grp ''message'' (star Dot), Eol]"

definition json_structured_rx :: rx where
  "json_structured_rx = seqs [Bol, chr CHR ''{'', star Dot, chr CHR ''}'', Eol]"

definition docker_rx :: rx where
  "docker_rx = seqs [Bol,
     Grp ''timestamp'' (seqs [ymd, chr CHR ''T'', hms, chr CHR ''.'', plus Digit, chr CHR ''Z'']),
     plus Space, Grp ''level'' (plus Word), plus Space, Grp ''container_id'' (plus Word),
     plus Space, Grp ''message'' (star Dot), Eol]"

definition LOG_PATTERNS :: "(string \<times> log_config) list" where
  "LOG_PATTERNS = [
     (''syslog'', \<lparr>pattern = syslog_rx, timestamp_format = Some ''%b %d %H:%M:%S'',
        level_map = None\<rparr>),
     (''apache_access'', \<lparr>pattern = apache_access_rx,
        timestamp_format = Some ''%d/%b/%Y:%H:%M:%S %z'', level_map = None\<rparr>),
     (''nginx_access'', \<lparr>pattern = nginx_access_rx,
        timestamp_format = Some ''%d/%b/%Y:%H:%M:%S %z'', level_map = None\<rparr>),
     (''firewall'', \<lparr>pattern = firewall_rx, timestamp_format = None,
        level_map = Some [(''ACCEPT'', ''INFO''), (''DENY'', ''WARN''), (''DROP'', ''WARN''),
          (''REJECT'', ''ERROR'')]\<rparr>),
     (''cisco_syslog'', \<lparr>pattern = cisco_syslog_rx, timestamp_format = None,
        level_map = Some [(''0'', ''EMERGENCY''), (''1'', ''ALERT''), (''2'', ''CRITICAL''),
          (''3'', ''ERROR''), (''4'', ''WARN''), (''5'', ''NOTICE''), (''6'', ''INFO''),
          (''7'', ''DEBUG'')]\<rparr>),
     (''windows_event'', \<lparr>pattern = windows_event_rx,
        timestamp_format = Some ''%Y-%m-%d %H:%M:%S'', level_map = None\<rparr>),
     (''json_structured'', \<lparr>pattern = json_structured_rx, timestamp_format = None,
        level_map = None\<rparr>),
     (''docker'', \<lparr>pattern = docker_rx, timestamp_format = Some ''%Y-%m-%dT%H:%M:%S.%fZ'',
        level_map = None\<rparr>)]"


section \<open>Python values, dictionaries and exceptions\<close>

text \<open>Values that reach the parser: what \<open>json.loads\<close> can return, the strings and
  \<open>None\<close> of \<open>match.groupdict()\<close>, and parsed timestamps (instants, as integers).
  A dictionary is an association list with distinct keys in insertion order.\<close>

datatype pyval =
    PNone
  | PBool bool
  | PInt int
  | PFloat string
  | PStr string
  | PTime int
  | PList "pyval list"
  | PDict "(string \<times> pyval) list"

type_synonym dict = "(string \<times> pyval) list"

datatype pyerr =
    AttributeError
  | TypeError
  | ValueError
  | KeyError
  | ValidationError
  | WriteError
  | HTTPException
  | OtherError string

text \<open>\<open>d.get(k, default)\<close>, \<open>d[k] = v\<close> and \<open>d.update(e)\<close>.\<close>

definition dict_get :: "dict \<Rightarrow> string \<Rightarrow> pyval \<Rightarrow> pyval" where
  "dict_get d k dflt = (case map_of d k of Some v \<Rightarrow> v | None \<Rightarrow> dflt)"

definition dict_set :: "dict \<Rightarrow> string \<Rightarrow> pyval \<Rightarrow> dict" where
  "dict_set d k v = AList.update k v d"

definition dict_update :: "dict \<Rightarrow> dict \<Rightarrow> dict" where
  "dict_update d e = foldl (\<lambda>acc (k, v). dict_set acc k v) d e"

text \<open>What lies outside the repository and is called by the parser: \<open>json.loads\<close>
  (\<open>None\<close> for \<open>JSONDecodeError\<close>; on a line that starts with a brace any other result is
  an object), \<open>datetime.fromisoformat\<close> and \<open>datetime.strptime\<close> (\<open>None\<close> for
  \<open>ValueError\<close>), the clock, and the hexadecimal MD5 digest.\<close>

record env =
  json_loads :: "string \<Rightarrow> dict option"
  fromisoformat :: "string \<Rightarrow> int option"
  strptime :: "string \<Rightarrow> string \<Rightarrow> int option"
  now :: int
  md5_hexdigest :: "string \<Rightarrow> string"

section \<open>\<open>parse_structured_log\<close>\<close>

definition group_text :: "rmatch \<Rightarrow> string \<Rightarrow> string" where
  \<comment> \<open>the text of a group that takes part in every match of its pattern\<close>
  "group_text res g = (case group res g of Some t \<Rightarrow> t | None \<Rightarrow> [])"

definition groupdict :: "rx \<Rightarrow> rmatch \<Rightarrow> dict" where
  "groupdict r res =
     map (\<lambda>g. (g, case group res g of Some t \<Rightarrow> PStr t | None \<Rightarrow> PNone)) (named_groups r)"

definition parse_timestamp :: "env \<Rightarrow> log_config \<Rightarrow> dict \<Rightarrow> dict" where
  "parse_timestamp ev config parsed_data =
     (case (map_of parsed_data ''timestamp'', timestamp_format config) of
        (Some ts_str, Some fmt) \<Rightarrow>
          (if fmt = [] then parsed_data
           else (case ts_str of
                   PStr t \<Rightarrow>
                     (case strptime ev t fmt of
                        Some v \<Rightarrow> dict_set parsed_data ''parsed_timestamp'' (PTime v)
                      | None \<Rightarrow> parsed_data)
                 | _ \<Rightarrow> parsed_data))
      | _ \<Rightarrow> parsed_data)"

definition level_map_get :: "(string \<times> string) list \<Rightarrow> pyval \<Rightarrow> string" where
  "level_map_get lm v =
     (case v of
        PStr t \<Rightarrow> (case map_of lm t of Some l \<Rightarrow> l | None \<Rightarrow> ''INFO'')
      | _ \<Rightarrow> ''INFO'')"

definition map_levels :: "log_config \<Rightarrow> dict \<Rightarrow> dict" where
  "map_levels config parsed_data =
     (case level_map config of
        None \<Rightarrow> parsed_data
      | Some lm \<Rightarrow>
          (case map_of parsed_data ''severity'' of
             Some v \<Rightarrow> dict_set parsed_data ''level'' (PStr (level_map_get lm v))
           | None \<Rightarrow>
               (case map_of parsed_data ''action'' of
                  Some v \<Rightarrow> dict_set parsed_data ''level'' (PStr (level_map_get lm v))
                | None \<Rightarrow> parsed_data)))"

text \<open>The loop over the registry: the first pattern that \<open>re.match\<close>es ends it.\<close>

fun parse_structured_loop :: "env \<Rightarrow> (string \<times> log_config) list \<Rightarrow> string \<Rightarrow> dict" where
  "parse_structured_loop ev [] line = []"
| "parse_structured_loop ev ((ltype, config) # rest) line =
     (case re_match False (pattern config) line of
        None \<Rightarrow> parse_structured_loop ev rest line
      | Some res \<Rightarrow>
          map_levels config
            (parse_timestamp ev config
               (dict_set (groupdict (pattern config) res) ''log_type'' (PStr ltype))))"

definition parse_structured_log :: "env \<Rightarrow> string \<Rightarrow> dict" where
  "parse_structured_log ev line = parse_structured_loop ev LOG_PATTERNS line"

section \<open>\<open>extract_network_info\<close>\<close>

definition octet :: rx where
  "octet = between 1 3 Digit"

definition ip_pattern :: rx where
  \<comment> \<open>\<open>\b(?P<ip>\d{1,3}\.\d{1,3}\.\d{1,3}\.\d{1,3})\b\<close>\<close>
  "ip_pattern = seqs [Wordb,
     Grp ''ip'' (seqs [octet, chr CHR ''.'', octet, chr CHR ''.'', octet, chr CHR ''.'', octet]),
     Wordb]"

definition eq_or_colon :: rx where
  \<comment> \<open>\<open>\s*[=:]\s*\<close>\<close>
  "eq_or_colon = seqs [star Space, One (In [Lit CHR ''='', Lit CHR '':'']), star Space]"

definition port_patterns :: "rx list" where
  "port_patterns = [
     seqs [alts [lit ''port'', lit ''PORT''], eq_or_colon, Grp ''port'' (plus Digit)],
     seqs [alts [lit ''src_port'', lit ''SRC_PORT'', lit ''SPT''], eq_or_colon,
       Grp ''port'' (plus Digit)],
     seqs [alts [lit ''dst_port'', lit ''DST_PORT'', lit ''DPT''], eq_or_colon,
       Grp ''port'' (plus Digit)],
     seqs [chr CHR '':'', Grp ''port'' (plus Digit), Wordb]]"

definition proto_patterns :: "rx list" where
  "proto_patterns = [
     seqs [alts [lit ''proto'', lit ''protocol'', lit ''PROTO''], eq_or_colon,
       Grp ''proto'' (plus Word)],
     seqs [Wordb,
       Grp ''proto'' (alts [lit ''TCP'', lit ''UDP'', lit ''ICMP'', lit ''HTTP'', lit ''HTTPS'',
         lit ''FTP'', lit ''SSH'', lit ''SMTP'', lit ''DNS'', lit ''DHCP'', lit ''SNMP'']),
       Wordb]]"

definition hex2 :: rx where
  \<comment> \<open>\<open>[0-9A-Fa-f]{2}\<close>\<close>
  "hex2 = Rep (In [Rng CHR ''0'' CHR ''9'', Rng CHR ''A'' CHR ''F'', Rng CHR ''a'' CHR ''f''])
     2 (Some 2) True"

definition mac_pattern :: rx where
  \<comment> \<open>\<open>\b(?P<mac>(?:[0-9A-Fa-f]{2}[:-]){5}[0-9A-Fa-f]{2})\b\<close>\<close>
  "mac_pattern = seqs [Wordb,
     Grp ''mac'' (Seq (Times (Seq hex2 (One (In [Lit CHR '':'', Lit CHR ''-'']))) 5) hex2),
     Wordb]"

text \<open>\<open>re.findall\<close> on a pattern with one group: the text of that group in each match.\<close>

definition findall :: "rx \<Rightarrow> string \<Rightarrow> string \<Rightarrow> string list" where
  "findall r g s = map (\<lambda>res. group_text res g) (finditer False r s)"

definition add_port :: "string list \<Rightarrow> rmatch \<Rightarrow> string list" where
  "add_port ports res =
     (let port = group_text res ''port'' in
      if port \<notin> set ports \<and> 1 \<le> int_of_digits port \<and> int_of_digits port \<le> 65535
      then ports @ [port] else ports)"

definition collect_ports :: "string \<Rightarrow> string list" where
  "collect_ports msg =
     foldl (\<lambda>ports pat. foldl add_port ports (finditer True pat msg)) [] port_patterns"

definition add_proto :: "string list \<Rightarrow> rmatch \<Rightarrow> string list" where
  "add_proto protocols res =
     (let proto = upper (group_text res ''proto'') in
      if proto \<notin> set protocols then protocols @ [proto] else protocols)"

definition collect_protocols :: "string \<Rightarrow> string list" where
  "collect_protocols msg =
     foldl (\<lambda>protocols pat. foldl add_proto protocols (finditer True pat msg)) [] proto_patterns"

definition strs :: "string list \<Rightarrow> pyval" where
  "strs xs = PList (map PStr xs)"

definition extract_network_info :: "string \<Rightarrow> dict" where
  "extract_network_info msg =
     (let ips = findall ip_pattern ''ip'' msg;
          n1 = (case ips of
                  [] \<Rightarrow> []
                | [a] \<Rightarrow> [(''ip_addresses'', strs ips), (''ip_address'', PStr a)]
                | a # b # rest \<Rightarrow>
                    [(''ip_addresses'', strs ips), (''src_ip'', PStr a), (''dst_ip'', PStr b)]);
          ports = collect_ports msg;
          n2 = (if ports \<noteq> [] then dict_set n1 ''ports'' (strs ports) else n1);
          protocols = collect_protocols msg;
          n3 = (if protocols \<noteq> [] then dict_set n2 ''protocols'' (strs protocols) else n2);
          macs = findall mac_pattern ''mac'' msg
      in if macs \<noteq> [] then dict_set n3 ''mac_addresses'' (strs macs) else n3)"

section \<open>\<open>extract_log_level\<close>\<close>

definition level_rx :: "string list \<Rightarrow> rx" where
  \<comment> \<open>\<open>\b(W1|W2|...)\b\<close>\<close>
  "level_rx ws = seqs [Wordb, Grp ''1'' (alts (map lit ws)), Wordb]"

definition LEVEL_PATTERNS :: "rx list" where
  "LEVEL_PATTERNS = [
     level_rx [''EMERGENCY'', ''EMERG'', ''PANIC''],
     level_rx [''ALERT''],
     level_rx [''CRITICAL'', ''CRIT'', ''FATAL''],
     level_rx [''ERROR'', ''ERR'', ''FAIL'', ''FAILED''],
     level_rx [''WARNING'', ''WARN'', ''NOTICE''],
     level_rx [''INFO'', ''INFORMATION''],
     level_rx [''DEBUG'', ''TRACE'']]"

definition LEVEL_MAP :: "(string \<times> string) list" where
  "LEVEL_MAP = [
     (''EMERGENCY'', ''EMERGENCY''), (''EMERG'', ''EMERGENCY''), (''PANIC'', ''EMERGENCY''),
     (''ALERT'', ''ALERT''),
     (''CRITICAL'', ''CRITICAL''), (''CRIT'', ''CRITICAL''), (''FATAL'', ''CRITICAL''),
     (''ERROR'', ''ERROR''), (''ERR'', ''ERROR''), (''FAIL'', ''ERROR''), (''FAILED'', ''ERROR''),
     (''WARNING'', ''WARN''), (''WARN'', ''WARN''), (''NOTICE'', ''WARN''),
     (''INFO'', ''INFO''), (''INFORMATION'', ''INFO''),
     (''DEBUG'', ''DEBUG''), (''TRACE'', ''DEBUG'')]"

definition priority_rx :: rx where
  \<comment> \<open>\<open><(\d+)>\<close>\<close>
  "priority_rx = seqs [chr CHR ''<'', Grp ''1'' (plus Digit), chr CHR ''>'']"

definition severity_map :: "(nat \<times> string) list" where
  "severity_map = [(0, ''EMERGENCY''), (1, ''ALERT''), (2, ''CRITICAL''), (3, ''ERROR''),
     (4, ''WARN''), (5, ''NOTICE''), (6, ''INFO''), (7, ''DEBUG'')]"

text \<open>The loop over \<open>LEVEL_PATTERNS\<close>: it returns at the first pattern that is found.\<close>

fun scan_levels :: "rx list \<Rightarrow> string \<Rightarrow> string \<Rightarrow> string option" where
  "scan_levels [] msg default_level = None"
| "scan_levels (pat # pats) msg default_level =
     (case re_search True pat msg of
        Some res \<Rightarrow>
          Some (case map_of LEVEL_MAP (upper (group_text res ''1'')) of
                  Some l \<Rightarrow> l
                | None \<Rightarrow> default_level)
      | None \<Rightarrow> scan_levels pats msg default_level)"

definition any_in :: "string list \<Rightarrow> string \<Rightarrow> bool" where
  \<comment> \<open>\<open>any(word in s for word in ws)\<close>\<close>
  "any_in ws s = list_ex (contains s) ws"

definition extract_log_level :: "string \<Rightarrow> string \<Rightarrow> string" where
  "extract_log_level msg default_level =
     (case scan_levels LEVEL_PATTERNS msg default_level of
        Some l \<Rightarrow> l
      | None \<Rightarrow>
          (case re_search False priority_rx msg of
             Some res \<Rightarrow>
               (case map_of severity_map (int_of_digits (group_text res ''1'') mod 8) of
                  Some l \<Rightarrow> l
                | None \<Rightarrow> default_level)
           | None \<Rightarrow>
               (let message_upper = upper msg in
                if any_in [''FAIL'', ''ERROR'', ''EXCEPTION'', ''CRASH''] message_upper then ''ERROR''
                else if any_in [''WARN'', ''ALERT'', ''DENY'', ''BLOCK''] message_upper then ''WARN''
                else if any_in [''DEBUG'', ''TRACE''] message_upper then ''DEBUG''
                else default_level)))"


section \<open>\<open>parse_enhanced_log_line\<close>\<close>

record log_entry =
  message :: string
  timestamp :: int
  level :: "string option"
  source :: "string option"
  log_type :: "string option"
  network_info :: dict
  parsed_fields :: dict
  metadata :: dict

text \<open>The local variables of the function while the line is being taken apart.\<close>

record parse_locals =
  l_message :: pyval
  l_level :: pyval
  l_timestamp :: int
  l_log_type :: string
  l_network_info :: dict
  l_parsed_fields :: dict
  l_metadata :: dict

definition PROTOCOL_MAP :: "(string \<times> string) list" where
  "PROTOCOL_MAP = [(''1'', ''ICMP''), (''6'', ''TCP''), (''17'', ''UDP''), (''47'', ''GRE''),
     (''50'', ''ESP''), (''51'', ''AH''), (''58'', ''ICMPv6''), (''89'', ''OSPF''),
     (''132'', ''SCTP'')]"

definition replace_Z :: "string \<Rightarrow> string" where
  \<comment> \<open>\<open>ts_str.replace('Z', '+00:00')\<close>\<close>
  "replace_Z t = concat (map (\<lambda>c. if c = CHR ''Z'' then ''+00:00'' else [c]) t)"

definition iso_or_keep :: "env \<Rightarrow> pyval \<Rightarrow> int \<Rightarrow> pyerr + int" where
  \<comment> \<open>a string is parsed (\<open>ValueError\<close> when it is not ISO), anything else is ignored\<close>
  "iso_or_keep ev v ts0 =
     (case v of
        PStr t \<Rightarrow>
          (case fromisoformat ev (replace_Z t) of Some i \<Rightarrow> Inr i | None \<Rightarrow> Inl ValueError)
      | _ \<Rightarrow> Inr ts0)"

definition json_timestamp :: "env \<Rightarrow> dict \<Rightarrow> int \<Rightarrow> pyerr + int" where
  "json_timestamp ev json_log ts0 =
     (case map_of json_log ''timestamp'' of
        Some v \<Rightarrow> iso_or_keep ev v ts0
      | None \<Rightarrow>
          (case map_of json_log ''time'' of
             Some v \<Rightarrow> iso_or_keep ev v ts0
           | None \<Rightarrow> Inr ts0))"

definition json_network_fields :: "string list" where
  "json_network_fields =
     [''src_ip'', ''dst_ip'', ''src_port'', ''dst_port'', ''protocol'', ''ip_address'']"

definition json_consumed :: "string list" where
  "json_consumed = [''message'', ''msg'', ''level'', ''severity'', ''timestamp'', ''time'']"

definition json_network :: "dict \<Rightarrow> dict \<Rightarrow> dict" where
  "json_network json_log ni0 =
     foldl (\<lambda>ni field. case map_of json_log field of
                           Some v \<Rightarrow> dict_set ni field v
                         | None \<Rightarrow> ni) ni0 json_network_fields"

text \<open>The statements after a successful \<open>json.loads\<close>. \<open>.upper()\<close> on a level that is
  not a string raises \<open>AttributeError\<close>, a bad timestamp \<open>ValueError\<close>; the inner
  handler catches \<open>JSONDecodeError\<close> only, so both leave the function's \<open>try\<close> body.\<close>

definition json_stage :: "env \<Rightarrow> string \<Rightarrow> dict \<Rightarrow> parse_locals \<Rightarrow> pyerr + parse_locals" where
  "json_stage ev line json_log st =
     (case dict_get json_log ''level'' (dict_get json_log ''severity'' (PStr ''INFO'')) of
        PStr l \<Rightarrow>
          (case json_timestamp ev json_log (l_timestamp st) of
             Inl e \<Rightarrow> Inl e
           | Inr ts \<Rightarrow>
               Inr \<lparr>l_message = dict_get json_log ''message'' (dict_get json_log ''msg'' (PStr line)),
                    l_level = PStr (upper l),
                    l_timestamp = ts,
                    l_log_type = ''json'',
                    l_network_info = json_network json_log (l_network_info st),
                    l_parsed_fields = json_log,
                    l_metadata = filter (\<lambda>(k, v). k \<notin> set json_consumed) json_log\<rparr>)
      | _ \<Rightarrow> Inl AttributeError)"

definition structured_network_fields :: "string list" where
  "structured_network_fields =
     [''src_ip'', ''dst_ip'', ''src_port'', ''dst_port'', ''protocol'', ''remote_addr'']"

definition structured_network :: "dict \<Rightarrow> dict \<Rightarrow> dict" where
  "structured_network structured_data ni0 =
     foldl (\<lambda>ni field. case map_of structured_data field of
                           Some v \<Rightarrow> dict_set ni (if field = ''remote_addr'' then ''src_ip'' else field) v
                         | None \<Rightarrow> ni) ni0 structured_network_fields"

definition structured_stage :: "env \<Rightarrow> string \<Rightarrow> parse_locals \<Rightarrow> parse_locals" where
  "structured_stage ev line st =
     (let structured_data = parse_structured_log ev line in
      if structured_data = [] then st
      else
        \<lparr>l_message = (case map_of structured_data ''message'' of Some v \<Rightarrow> v
                       | None \<Rightarrow> l_message st),
         l_level = (case map_of structured_data ''level'' of Some v \<Rightarrow> v | None \<Rightarrow> l_level st),
         l_timestamp = (case map_of structured_data ''parsed_timestamp'' of
                          Some (PTime i) \<Rightarrow> i
                        | _ \<Rightarrow> l_timestamp st),
         l_log_type = (case map_of structured_data ''log_type'' of
                         Some (PStr t) \<Rightarrow> t
                       | _ \<Rightarrow> ''structured''),
         l_network_info = structured_network structured_data (l_network_info st),
         l_parsed_fields = structured_data,
         l_metadata = filter (\<lambda>(k, v). k \<notin> set ([''message'', ''level'', ''parsed_timestamp'',
                         ''log_type''] @ structured_network_fields)) structured_data\<rparr>)"

text \<open>The network map after \<open>network_info.update(additional_network_info)\<close>.\<close>

definition merged_network :: "dict \<Rightarrow> string \<Rightarrow> dict" where
  "merged_network ni msg = dict_update ni (extract_network_info msg)"

text \<open>The mapping of a numeric \<open>protocol\<close>; \<open>.isdigit()\<close> on a value that is not a
  string raises \<open>AttributeError\<close>.\<close>

definition map_protocol :: "dict \<Rightarrow> pyerr + dict" where
  "map_protocol ni =
     (case map_of ni ''protocol'' of
        None \<Rightarrow> Inr ni
      | Some (PStr proto_num) \<Rightarrow>
          Inr (if isdigit proto_num
               then dict_set ni ''protocol''
                      (PStr (case map_of PROTOCOL_MAP proto_num of Some n \<Rightarrow> n
                             | None \<Rightarrow> proto_num))
               else ni)
      | Some _ \<Rightarrow> Inl AttributeError)"

text \<open>The statements from \<open>extract_network_info(message)\<close> to the construction of the
  entry. A message that is not a string makes \<open>re.findall\<close> raise \<open>TypeError\<close>; the
  entry's \<open>level\<close> is declared \<open>Optional[str]\<close>.\<close>

definition finish_entry :: "string \<Rightarrow> parse_locals \<Rightarrow> pyerr + log_entry" where
  "finish_entry src st =
     (case l_message st of
        PStr msg \<Rightarrow>
          (case map_protocol (merged_network (l_network_info st) msg) of
             Inl e \<Rightarrow> Inl e
           | Inr ni \<Rightarrow>
               (case (if l_level st = PStr ''INFO'' then PStr (extract_log_level msg ''INFO'')
                      else l_level st) of
                  PStr l \<Rightarrow>
                    Inr \<lparr>message = msg, timestamp = l_timestamp st, level = Some l,
                         source = Some src, log_type = Some (l_log_type st), network_info = ni,
                         parsed_fields = l_parsed_fields st, metadata = l_metadata st\<rparr>
                | PNone \<Rightarrow>
                    Inr \<lparr>message = msg, timestamp = l_timestamp st, level = None,
                         source = Some src, log_type = Some (l_log_type st), network_info = ni,
                         parsed_fields = l_parsed_fields st, metadata = l_metadata st\<rparr>
                | _ \<Rightarrow> Inl ValidationError))
      | _ \<Rightarrow> Inl TypeError)"

definition initial_locals :: "env \<Rightarrow> string \<Rightarrow> parse_locals" where
  "initial_locals ev line =
     \<lparr>l_message = PStr (strip line), l_level = PStr ''INFO'', l_timestamp = now ev,
      l_log_type = ''unknown'', l_network_info = [], l_parsed_fields = [], l_metadata = []\<rparr>"

text \<open>The classification: the JSON attempt, then the registry when the tag is still
  \<open>unknown\<close>.\<close>

definition classify :: "env \<Rightarrow> string \<Rightarrow> pyerr + parse_locals" where
  "classify ev line =
     (case (if take 1 (strip line) = ''{''
            then (case json_loads ev line of
                    Some json_log \<Rightarrow> json_stage ev line json_log (initial_locals ev line)
                  | None \<Rightarrow> Inr (initial_locals ev line))
            else Inr (initial_locals ev line)) of
        Inl e \<Rightarrow> Inl e
      | Inr st \<Rightarrow> Inr (if l_log_type st = ''unknown'' then structured_stage ev line st else st))"

text \<open>The body of the function's \<open>try\<close>.\<close>

definition parse_enhanced_try :: "env \<Rightarrow> string \<Rightarrow> string \<Rightarrow> pyerr + log_entry" where
  "parse_enhanced_try ev line src =
     (case classify ev line of Inl e \<Rightarrow> Inl e | Inr st \<Rightarrow> finish_entry src st)"

text \<open>\<open>EnhancedLogEntry(message=line.strip(), source=source)\<close>: every other field at its
  default.\<close>

definition default_entry :: "env \<Rightarrow> string \<Rightarrow> string \<Rightarrow> log_entry" where
  "default_entry ev msg src =
     \<lparr>message = msg, timestamp = now ev, level = Some ''INFO'', source = Some src,
      log_type = None, network_info = [], parsed_fields = [], metadata = []\<rparr>"

definition parse_enhanced_log_line :: "env \<Rightarrow> string \<Rightarrow> string \<Rightarrow> log_entry option" where
  "parse_enhanced_log_line ev line src =
     (if strip line = [] then None
      else (case parse_enhanced_try ev line src of
              Inr e \<Rightarrow> Some e
            | Inl err \<Rightarrow> Some (default_entry ev (strip line) src)))"


section \<open>The document store\<close>

text \<open>
  A collection is the list of its documents. \<open>update_one(filter, update, upsert)\<close> is
  the store's operation, outside the repository; it is modelled for the operators the
  source uses (\<open>$set\<close>, \<open>$setOnInsert\<close>, \<open>$inc\<close>) on top-level fields. The store
  rejects an update document in which two operators name the same field (``Updating the
  path would create a conflict''), before it looks at any document. Otherwise the first
  document that matches the filter is updated; with \<open>upsert\<close> and no match, a document is
  made from the filter's fields and the operators, \<open>$setOnInsert\<close> included.
\<close>

type_synonym update_doc = "(string \<times> dict) list"

definition matches_filter :: "dict \<Rightarrow> dict \<Rightarrow> bool" where
  "matches_filter flt d = list_all (\<lambda>(k, v). map_of d k = Some v) flt"

definition operator :: "update_doc \<Rightarrow> string \<Rightarrow> dict" where
  "operator upd name = (case map_of upd name of Some fs \<Rightarrow> fs | None \<Rightarrow> [])"

definition updated_paths :: "update_doc \<Rightarrow> string list" where
  "updated_paths upd = concat (map (\<lambda>(name, fs). map fst fs) upd)"

definition inc_field :: "pyerr + dict \<Rightarrow> string \<times> pyval \<Rightarrow> pyerr + dict" where
  "inc_field acc kv =
     (case acc of
        Inl e \<Rightarrow> Inl e
      | Inr d \<Rightarrow>
          (case (map_of d (fst kv), snd kv) of
             (None, PInt n) \<Rightarrow> Inr (dict_set d (fst kv) (PInt n))
           | (Some (PInt c), PInt n) \<Rightarrow> Inr (dict_set d (fst kv) (PInt (c + n)))
           | _ \<Rightarrow> Inl WriteError))"

definition apply_operators :: "update_doc \<Rightarrow> bool \<Rightarrow> dict \<Rightarrow> pyerr + dict" where
  "apply_operators upd inserting d =
     foldl inc_field
       (Inr (dict_update (dict_update d (operator upd ''$set''))
               (if inserting then operator upd ''$setOnInsert'' else [])))
       (operator upd ''$inc'')"

fun update_first :: "dict \<Rightarrow> update_doc \<Rightarrow> dict list \<Rightarrow> (pyerr + dict list) option" where
  "update_first flt upd [] = None"
| "update_first flt upd (d # ds) =
     (if matches_filter flt d
      then Some (case apply_operators upd False d of
                   Inl e \<Rightarrow> Inl e
                 | Inr d' \<Rightarrow> Inr (d' # ds))
      else (case update_first flt upd ds of
              None \<Rightarrow> None
            | Some (Inl e) \<Rightarrow> Some (Inl e)
            | Some (Inr ds') \<Rightarrow> Some (Inr (d # ds'))))"

definition update_one :: "dict \<Rightarrow> update_doc \<Rightarrow> bool \<Rightarrow> dict list \<Rightarrow> pyerr + dict list" where
  "update_one flt upd upsert coll =
     (if \<not> distinct (updated_paths upd) then Inl WriteError
      else (case update_first flt upd coll of
              Some r \<Rightarrow> r
            | None \<Rightarrow>
                (if upsert
                 then (case apply_operators upd True flt of
                         Inl e \<Rightarrow> Inl e
                       | Inr d \<Rightarrow> Inr (coll @ [d]))
                 else Inr coll)))"

section \<open>\<open>process_log_with_enhanced_parsing\<close>\<close>

record template_info =
  template_id :: pyval
  template :: pyval
  cluster_size :: pyval

text \<open>The template miner is outside the repository. A call of \<open>add_log_message\<close> either
  raises or returns nothing, a dictionary, or an object (given by its attributes, the result
  of \<open>get_template()\<close> under that name); \<open>id_to_cluster\<close> is the miner's table of clusters
  after the call (\<open>None\<close> when reading it raises or the attribute is missing). The miner
  has a state of its own, \<open>'s\<close>.\<close>

datatype miner_result = ResNone | ResDict dict | ResObject dict

record miner_call =
  returned :: "pyerr + miner_result"
  id_to_cluster :: "(int \<times> dict) list option"

record 's globals =
  logparser_drain :: bool
  template_miner :: "(string \<Rightarrow> 's \<Rightarrow> miner_call \<times> 's) option"
  store_down :: "nat \<Rightarrow> bool"

text \<open>\<open>logparser_drain\<close> tells whether that parser is there; \<open>template_miner\<close> is
  \<open>None\<close> when both attempts to construct it failed; \<open>store_down n\<close> tells whether the
  store refuses the insert into a collection of \<open>n\<close> documents.\<close>

definition getattr :: "dict \<Rightarrow> string \<Rightarrow> pyval \<Rightarrow> pyval" where
  "getattr attrs name dflt = dict_get attrs name dflt"

definition hasattr :: "dict \<Rightarrow> string \<Rightarrow> bool" where
  "hasattr attrs name = (map_of attrs name \<noteq> None)"

definition empty_info :: template_info where
  "empty_info = \<lparr>template_id = PNone, template = PNone, cluster_size = PInt 0\<rparr>"

definition info_of_result :: "miner_result \<Rightarrow> template_info" where
  "info_of_result res =
     (case res of
        ResNone \<Rightarrow> empty_info
      | ResDict d \<Rightarrow>
          \<lparr>template_id = dict_get d ''cluster_id'' PNone,
           template = dict_get d ''template'' PNone,
           cluster_size = dict_get d ''cluster_size'' (PInt 0)\<rparr>
      | ResObject attrs \<Rightarrow>
          (if hasattr attrs ''cluster_id'' \<or> hasattr attrs ''id''
           then \<lparr>template_id = getattr attrs ''cluster_id'' (getattr attrs ''id'' PNone),
                 template = (if hasattr attrs ''get_template'' then getattr attrs ''get_template'' PNone
                             else if hasattr attrs ''template'' then getattr attrs ''template'' PNone
                             else PNone),
                 cluster_size = getattr attrs ''size'' (getattr attrs ''cluster_size'' (PInt 0))\<rparr>
           else empty_info))"

definition max_id :: "(int \<times> dict) list \<Rightarrow> int" where
  "max_id clusters = foldl max (fst (hd clusters)) (map fst (tl clusters))"

text \<open>The second attempt, when the result gave no id: the cluster with the largest id.\<close>

definition info_of_clusters :: "(int \<times> dict) list option \<Rightarrow> template_info \<Rightarrow> template_info" where
  "info_of_clusters table info =
     (case table of
        None \<Rightarrow> info
      | Some [] \<Rightarrow> info
      | Some (c # cs) \<Rightarrow>
          (case map_of (c # cs) (max_id (c # cs)) of
             None \<Rightarrow> info
           | Some cluster \<Rightarrow>
               \<lparr>template_id = PInt (max_id (c # cs)),
                template = (if hasattr cluster ''get_template'' then getattr cluster ''get_template'' PNone
                            else if hasattr cluster ''log_template_tokens''
                            then getattr cluster ''log_template_tokens'' PNone
                            else template info),
                cluster_size = getattr cluster ''size'' (PInt 1)\<rparr>))"

definition message_hash :: "env \<Rightarrow> string \<Rightarrow> string" where
  \<comment> \<open>\<open>hashlib.md5(message.encode()).hexdigest()[:8]\<close>\<close>
  "message_hash ev msg = take 8 (md5_hexdigest ev msg)"

definition pseudo_template :: "env \<Rightarrow> string \<Rightarrow> string \<Rightarrow> template_info" where
  "pseudo_template ev prefix msg =
     \<lparr>template_id = PStr (prefix @ message_hash ev msg), template = PStr msg,
      cluster_size = PInt 1\<rparr>"

text \<open>The template information built from a call of the miner that returned.\<close>

definition mined_info :: "env \<Rightarrow> string \<Rightarrow> miner_result \<Rightarrow> (int \<times> dict) list option \<Rightarrow> template_info" where
  "mined_info ev msg res table =
     (let info1 = info_of_result res;
          info2 = (if template_id info1 = PNone then info_of_clusters table info1 else info1)
      in if template_id info2 = PNone then pseudo_template ev ''tmpl_'' msg else info2)"

text \<open>Truth value of a Python value, as in \<open>... and result["template"]\<close>.\<close>

fun truthy :: "pyval \<Rightarrow> bool" where
  "truthy PNone = False"
| "truthy (PBool b) = b"
| "truthy (PInt i) = (i \<noteq> 0)"
| "truthy (PFloat f) = (f \<noteq> ''0.0'')"
| "truthy (PStr t) = (t \<noteq> [])"
| "truthy (PTime i) = True"
| "truthy (PList xs) = (xs \<noteq> [])"
| "truthy (PDict d) = (d \<noteq> [])"

text \<open>The update document of the template statistics, as the source writes it.\<close>

definition template_update :: "template_info \<Rightarrow> int \<Rightarrow> update_doc" where
  "template_update info ts =
     [(''$set'', [(''template'', template info), (''last_seen'', PTime ts),
                  (''cluster_size'', cluster_size info)]),
      (''$setOnInsert'', [(''first_seen'', PTime ts), (''count'', PInt 0)]),
      (''$inc'', [(''count'', PInt 1)])]"

definition upsert_template :: "pyval \<Rightarrow> template_info \<Rightarrow> int \<Rightarrow> dict list \<Rightarrow> pyerr + dict list" where
  "upsert_template tid info ts templates =
     update_one [(''template_id'', tid)] (template_update info ts) True templates"

text \<open>``Update template statistics'': guarded, and an exception of the store is logged as
  a warning and dropped.\<close>

definition update_template_statistics :: "template_info \<Rightarrow> int \<Rightarrow> dict list \<Rightarrow> dict list" where
  "update_template_statistics info ts templates =
     (if template_id info \<noteq> PNone \<and> truthy (template info)
      then (case upsert_template (template_id info) info ts templates of
              Inl db_error \<Rightarrow> templates
            | Inr templates' \<Rightarrow> templates')
      else templates)"

text \<open>The function: the result, the templates collection and the miner's state after it.\<close>

definition process_log_with_enhanced_parsing ::
  "env \<Rightarrow> 's globals \<Rightarrow> string \<Rightarrow> int \<Rightarrow> string \<Rightarrow> dict list \<times> 's \<Rightarrow> template_info \<times> dict list \<times> 's" where
  "process_log_with_enhanced_parsing ev g msg ts parser_type st =
     (if parser_type = ''logparser'' \<and> logparser_drain g
      then (let info = \<lparr>template_id = PStr ''logparser_template'', template = PStr msg,
                         cluster_size = PInt 1\<rparr>
            in (info, update_template_statistics info ts (fst st), snd st))
      else (case template_miner g of
              None \<Rightarrow> (pseudo_template ev ''fallback_'' msg, fst st, snd st)
            | Some add_log_message \<Rightarrow>
                (case returned (fst (add_log_message msg (snd st))) of
                   Inl e \<Rightarrow>
                     (pseudo_template ev ''error_'' msg, fst st, snd (add_log_message msg (snd st)))
                 | Inr res \<Rightarrow>
                     (let info = mined_info ev msg res
                                   (id_to_cluster (fst (add_log_message msg (snd st))))
                      in (info, update_template_statistics info ts (fst st),
                          snd (add_log_message msg (snd st)))))))"

section \<open>\<open>store_enhanced_log_entry\<close> and \<open>upload_logs\<close>\<close>

record log_doc =
  doc_entry :: log_entry
  doc_template :: template_info
  file_id :: "string option"
  filename :: "string option"
  created_at :: int

definition store_enhanced_log_entry ::
  "env \<Rightarrow> 's globals \<Rightarrow> log_entry \<Rightarrow> template_info \<Rightarrow> string option \<Rightarrow> string option \<Rightarrow>
   log_doc list \<Rightarrow> pyerr + log_doc list" where
  "store_enhanced_log_entry ev g e info fid fname logs =
     (if store_down g (length logs) then Inl HTTPException
      else Inr (logs @ [\<lparr>doc_entry = e, doc_template = info, file_id = fid, filename = fname,
                         created_at = now ev\<rparr>]))"

record 's upload_state =
  processed_count :: nat
  failed_count :: nat
  logs_collection :: "log_doc list"
  templates_collection :: "dict list"
  miner_state :: 's

text \<open>One turn of the loop over the lines of the file.\<close>

definition upload_line ::
  "env \<Rightarrow> 's globals \<Rightarrow> string \<Rightarrow> string \<Rightarrow> 's upload_state \<Rightarrow> string \<Rightarrow> 's upload_state" where
  "upload_line ev g fname fid st line =
     (case parse_enhanced_log_line ev line fname of
        None \<Rightarrow> st\<lparr>failed_count := failed_count st + 1\<rparr>
      | Some e \<Rightarrow>
          (case process_log_with_enhanced_parsing ev g (message e) (timestamp e) ''drain3''
                  (templates_collection st, miner_state st) of
             (info, templates', ms') \<Rightarrow>
               (case store_enhanced_log_entry ev g e info (Some fid) (Some fname)
                       (logs_collection st) of
                  Inl err \<Rightarrow>
                    st\<lparr>failed_count := failed_count st + 1, templates_collection := templates',
                       miner_state := ms'\<rparr>
                | Inr logs' \<Rightarrow>
                    st\<lparr>processed_count := processed_count st + 1, logs_collection := logs',
                       templates_collection := templates', miner_state := ms'\<rparr>)))"

text \<open>The loop of \<open>upload_logs\<close> over \<open>text_content.strip().split('\n')\<close>, the counters
  starting at zero.\<close>

definition upload_lines ::
  "env \<Rightarrow> 's globals \<Rightarrow> string \<Rightarrow> string \<Rightarrow> string \<Rightarrow> 's upload_state \<Rightarrow> 's upload_state" where
  "upload_lines ev g fname fid text_content st =
     foldl (upload_line ev g fname fid)
       (st\<lparr>processed_count := 0, failed_count := 0\<rparr>)
       (split_nl (strip text_content))"


section \<open>The anomaly detector\<close>

text \<open>
  The detector reads a frame of log rows. Instants are integers (seconds), an hourly bucket
  is the instant divided by 3600. Arithmetic on counts and rates is over the reals: the
  source computes in binary floating point, which the model idealises. The description
  and the details of an anomaly (formatted text) are left out.
\<close>

record row =
  r_timestamp :: int
  r_level :: "string option"
  r_message :: string
  r_source :: "string option"
  r_template_id :: pyval
  r_template :: pyval

record anomaly =
  a_timestamp :: int
  anomaly_type :: string
  a_severity :: string
  affected_templates :: "int list"
  log_count :: nat
  score :: real

definition hour_of :: "int \<Rightarrow> int" where
  "hour_of t = t div 3600"

definition epsilon :: real where
  "epsilon = 1 / 1000000"

definition mean_of :: "real list \<Rightarrow> real" where
  "mean_of xs = sum_list xs / real (length xs)"

text \<open>Sample standard deviation (\<open>ddof=1\<close>), as \<open>Series.std\<close> and \<open>rolling(...).std()\<close>.\<close>

definition std_of :: "real list \<Rightarrow> real" where
  "std_of xs = sqrt (sum_list (map (\<lambda>x. (x - mean_of xs)\<^sup>2) xs) / real (length xs - 1))"

text \<open>\<open>df.set_index('timestamp').resample('1H').size()\<close>: one bucket for every hour from
  the first to the last, empty hours included.\<close>

definition resample_hourly :: "row list \<Rightarrow> (int \<times> nat) list" where
  "resample_hourly df =
     (case map (\<lambda>r. hour_of (r_timestamp r)) df of
        [] \<Rightarrow> []
      | h # hs \<Rightarrow>
          map (\<lambda>b. (b, length (filter (\<lambda>r. hour_of (r_timestamp r) = b) df)))
            [foldl min h hs .. foldl max h hs])"

text \<open>\<open>rolling(window=w)\<close> at position \<open>i\<close>: the \<open>w\<close> values that end at \<open>i\<close>,
  position \<open>i\<close> included; no value (NaN) before \<open>w\<close> values are there, and no standard
  deviation from fewer than two.\<close>

definition rolling_window :: "nat \<Rightarrow> real list \<Rightarrow> nat \<Rightarrow> real list option" where
  "rolling_window w xs i =
     (if i + 1 < w \<or> w < 2 then None else Some (take w (drop (i + 1 - w) xs)))"

definition z_score :: "nat \<Rightarrow> real list \<Rightarrow> nat \<Rightarrow> real option" where
  "z_score w xs i =
     (case rolling_window w xs i of
        None \<Rightarrow> None
      | Some win \<Rightarrow> Some ((xs ! i - mean_of win) / (std_of win + epsilon)))"

definition volume_anomaly :: "int \<times> nat \<Rightarrow> real \<Rightarrow> anomaly" where
  "volume_anomaly bucket z =
     \<lparr>a_timestamp = fst bucket * 3600,
      anomaly_type = (if z > 0 then ''VOLUME_SPIKE'' else ''VOLUME_DROP''),
      a_severity = (if \<bar>z\<bar> > 5 then ''HIGH'' else ''MEDIUM''),
      affected_templates = [],
      log_count = snd bucket,
      score = \<bar>z\<bar>\<rparr>"

definition volume_spike_threshold :: real where
  "volume_spike_threshold = 3"

definition volume_at :: "(int \<times> nat) list \<Rightarrow> nat \<Rightarrow> nat \<Rightarrow> anomaly list" where
  "volume_at df_hourly w i =
     (case z_score w (map (\<lambda>b. real (snd b)) df_hourly) i of
        None \<Rightarrow> []
      | Some z \<Rightarrow>
          (if \<bar>z\<bar> > volume_spike_threshold then [volume_anomaly (df_hourly ! i) z] else []))"

definition detect_volume_anomalies :: "row list \<Rightarrow> anomaly list" where
  "detect_volume_anomalies df =
     (if df = [] then []
      else (let df_hourly = resample_hourly df in
            if length df_hourly < 3 then []
            else concat (map (volume_at df_hourly (min 24 (length df_hourly - 1)))
                           [0..<length df_hourly])))"

text \<open>\<open>detect_error_rate_anomalies\<close>. The frame is grouped by hour and level (rows
  without a level drop out, and only hours that have rows appear), one column for every level
  that occurs. Selecting the four error columns raises \<open>KeyError\<close> when some, but not
  all, of them occur.\<close>

definition error_levels :: "string list" where
  "error_levels = [''ERROR'', ''CRITICAL'', ''FATAL'', ''WARN'']"

definition graded :: "row list \<Rightarrow> (int \<times> string) list" where
  "graded df =
     concat (map (\<lambda>r. case r_level r of None \<Rightarrow> []
                       | Some l \<Rightarrow> [(hour_of (r_timestamp r), l)]) df)"

definition hour_index :: "(int \<times> string) list \<Rightarrow> int list" where
  "hour_index g = sort (remdups (map fst g))"

definition total_logs :: "(int \<times> string) list \<Rightarrow> int \<Rightarrow> nat" where
  "total_logs g h = length (filter (\<lambda>(b, l). b = h) g)"

definition error_logs :: "(int \<times> string) list \<Rightarrow> int \<Rightarrow> nat" where
  "error_logs g h =
     (if list_ex (\<lambda>col. col \<in> snd ` set g) error_levels
      then length (filter (\<lambda>(b, l). b = h \<and> l \<in> set error_levels) g)
      else 0)"

definition error_rate :: "(int \<times> string) list \<Rightarrow> int \<Rightarrow> real" where
  "error_rate g h = real (error_logs g h) / (real (total_logs g h) + epsilon)"

definition baseline_error_rate :: "(int \<times> string) list \<Rightarrow> real" where
  "baseline_error_rate g =
     (if length (hour_index g) > 1
      then mean_of (map (error_rate g) (butlast (hour_index g)))
      else 0)"

definition error_rate_threshold :: real where
  "error_rate_threshold = 1 / 10"

definition error_rate_anomaly :: "(int \<times> string) list \<Rightarrow> int \<Rightarrow> anomaly" where
  "error_rate_anomaly g h =
     \<lparr>a_timestamp = h * 3600,
      anomaly_type = ''HIGH_ERROR_RATE'',
      a_severity = (if error_rate g h > 1 / 2 then ''CRITICAL'' else ''HIGH''),
      affected_templates = [],
      log_count = total_logs g h,
      score = error_rate g h\<rparr>"

definition error_rate_at :: "(int \<times> string) list \<Rightarrow> int \<Rightarrow> anomaly list" where
  "error_rate_at g h =
     (if error_rate g h > error_rate_threshold \<and> error_rate g h > baseline_error_rate g * 2
      then [error_rate_anomaly g h] else [])"

definition detect_error_rate_anomalies :: "row list \<Rightarrow> pyerr + anomaly list" where
  "detect_error_rate_anomalies df =
     (if df = [] \<or> hour_index (graded df) = [] then Inr []
      else if list_ex (\<lambda>col. col \<in> snd ` set (graded df)) error_levels \<and>
              \<not> list_all (\<lambda>col. col \<in> snd ` set (graded df)) error_levels
      then Inl KeyError
      else Inr (concat (map (error_rate_at (graded df)) (hour_index (graded df)))))"

text \<open>\<open>run_detection\<close>. The four other strategies read the clock, the store and a
  learned model; they are parameters here. What the logger is told is kept as a list of
  events.\<close>

type_synonym detector = "row list \<Rightarrow> pyerr + anomaly list"

record strategies =
  detect_new_template_anomalies :: detector
  detect_rare_template_anomalies :: detector
  detect_ml_anomalies :: detector
  detect_source_anomalies :: detector

datatype log_event =
    Running string
  | Found nat string
  | ErrorIn string pyerr
  | Stored string
  | ErrorStoring

definition detectors :: "strategies \<Rightarrow> (string \<times> detector) list" where
  "detectors sg = [
     (''Volume'', \<lambda>df. Inr (detect_volume_anomalies df)),
     (''Error Rate'', detect_error_rate_anomalies),
     (''New Templates'', detect_new_template_anomalies sg),
     (''Rare Templates'', detect_rare_template_anomalies sg),
     (''ML-based'', detect_ml_anomalies sg),
     (''Source'', detect_source_anomalies sg)]"

text \<open>One turn of the loop over the detectors: \<open>try\<close> the detector, extend the list,
  or log the exception.\<close>

definition run_detector :: "row list \<Rightarrow> anomaly list \<times> log_event list \<Rightarrow> string \<times> detector \<Rightarrow> anomaly list \<times> log_event list" where
  "run_detector df acc nd =
     (case snd nd df of
        Inr anomalies \<Rightarrow>
          (fst acc @ anomalies, snd acc @ [Running (fst nd), Found (length anomalies) (fst nd)])
      | Inl e \<Rightarrow> (fst acc, snd acc @ [Running (fst nd), ErrorIn (fst nd) e]))"

text \<open>\<open>store_anomaly\<close>: the insert, its exception logged and dropped. The store refuses
  the insert into a collection of \<open>n\<close> documents when \<open>down n\<close>.\<close>

definition store_anomaly :: "(nat \<Rightarrow> bool) \<Rightarrow> anomaly list \<times> log_event list \<Rightarrow> anomaly \<Rightarrow> anomaly list \<times> log_event list" where
  "store_anomaly down st a =
     (if down (length (fst st)) then (fst st, snd st @ [ErrorStoring])
      else (fst st @ [a], snd st @ [Stored (anomaly_type a)]))"

text \<open>The cycle, from the frame \<open>get_recent_logs\<close> returned: the anomalies it returns, the
  anomalies collection and the log after it.\<close>

definition run_detection ::
  "strategies \<Rightarrow> (nat \<Rightarrow> bool) \<Rightarrow> row list \<Rightarrow> anomaly list \<Rightarrow>
   anomaly list \<times> anomaly list \<times> log_event list" where
  "run_detection sg down df anomalies_collection =
     (let found = foldl (run_detector df) ([], []) (detectors sg);
          stored = foldl (store_anomaly down) (anomalies_collection, snd found) (fst found)
      in (fst found, fst stored, snd stored))"

section \<open>The specification's side\<close>

text \<open>
  Definitions that follow the words of the specification, to be compared with the
  functions above, and the concrete inputs at which the theorems are evaluated.
\<close>

subsection \<open>Severity extraction, in the specification's words\<close>













subsection \<open>Classification, in the specification's words\<close>




subsection \<open>Auxiliary notions of the proofs about the matcher\<close>


fun first_some :: "'a option list \<Rightarrow> 'a option" where
  "first_some [] = None"
| "first_some (x # xs) = (case x of Some r \<Rightarrow> Some r | None \<Rightarrow> first_some xs)"



subsection \<open>The detection cycle, in the specification's words\<close>

text \<open>What a strategy contributes to the cycle, and what it makes the cycle log.\<close>

definition successes :: "row list \<Rightarrow> string \<times> detector \<Rightarrow> anomaly list" where
  "successes df nd = (case snd nd df of Inr anomalies \<Rightarrow> anomalies | Inl e \<Rightarrow> [])"

definition failures :: "row list \<Rightarrow> string \<times> detector \<Rightarrow> (string \<times> pyerr) list" where
  "failures df nd = (case snd nd df of Inr anomalies \<Rightarrow> [] | Inl e \<Rightarrow> [(fst nd, e)])"

fun started :: "log_event \<Rightarrow> string list" where
  "started (Running n) = [n]"
| "started ev = []"

fun errors_logged :: "log_event \<Rightarrow> (string \<times> pyerr) list" where
  "errors_logged (ErrorIn n e) = [(n, e)]"
| "errors_logged ev = []"

subsection \<open>The miner returns no id\<close>


subsection \<open>The network map of a record, in the specification's words\<close>

text \<open>The IPv4 addresses of a message, in the order in which they stand.\<close>

definition addresses :: "string \<Rightarrow> string list" where
  "addresses msg = findall ip_pattern ''ip'' msg"

text \<open>A protocol given by its number is called by its name, when the table has one.\<close>

definition protocol_name :: "pyval \<Rightarrow> pyval" where
  "protocol_name v =
     (case v of
        PStr p \<Rightarrow> PStr (if isdigit p
                         then (case map_of PROTOCOL_MAP p of Some n \<Rightarrow> n | None \<Rightarrow> p)
                         else p)
      | _ \<Rightarrow> v)"

text \<open>The value that the record holds under a key that the captures gave the value \<open>v\<close>,
  when the message has the addresses \<open>ips\<close>: two or more addresses replace \<open>src_ip\<close> and
  \<open>dst_ip\<close>, a single address replaces \<open>ip_address\<close>, a protocol is called by its name,
  and everything else is kept.\<close>

definition merged_value :: "string list \<Rightarrow> string \<Rightarrow> pyval \<Rightarrow> pyval" where
  "merged_value ips k v =
     (if k = ''src_ip'' \<and> 2 \<le> length ips then PStr (ips ! 0)
      else if k = ''dst_ip'' \<and> 2 \<le> length ips then PStr (ips ! 1)
      else if k = ''ip_address'' \<and> length ips = 1 then PStr (ips ! 0)
      else if k = ''protocol'' then protocol_name v
      else v)"

subsection \<open>The lines of an upload that are stored\<close>

definition is_blank :: "string \<Rightarrow> bool" where
  "is_blank line = (strip line = [])"

text \<open>The lines that end up in the logs collection, in the order of the file, when the
  collection holds \<open>n\<close> documents before the first of them: a line is left out when it
  is blank, or when the store refuses the insert.\<close>

fun stored_lines :: "(nat \<Rightarrow> bool) \<Rightarrow> nat \<Rightarrow> string list \<Rightarrow> string list" where
  "stored_lines down n [] = []"
| "stored_lines down n (line # rest) =
     (if is_blank line \<or> down n then stored_lines down n rest
      else line # stored_lines down (Suc n) rest)"

subsection \<open>The error-rate detector, in the specification's words\<close>

text \<open>The rows that have a level, and those of them that fall into the hour \<open>h\<close>.\<close>

definition leveled :: "row list \<Rightarrow> row list" where
  "leveled df = filter (\<lambda>r. r_level r \<noteq> None) df"

definition bucket_rows :: "row list \<Rightarrow> int \<Rightarrow> row list" where
  "bucket_rows df h = filter (\<lambda>r. hour_of (r_timestamp r) = h) (leveled df)"

definition is_error :: "row \<Rightarrow> bool" where
  "is_error r = (r_level r = Some ''ERROR'' \<or> r_level r = Some ''CRITICAL'' \<or>
     r_level r = Some ''FATAL'' \<or> r_level r = Some ''WARN'')"

text \<open>The hours that have such rows, in ascending order: the buckets.\<close>

definition bucket_hours :: "row list \<Rightarrow> int list" where
  "bucket_hours df = sorted_list_of_set (set (map (\<lambda>r. hour_of (r_timestamp r)) (leveled df)))"



text \<open>The levels of the frame. The detector raises when some of the four error levels
  are among them and some are not.\<close>

definition levels_of :: "row list \<Rightarrow> string list" where
  "levels_of df = remdups (concat (map (\<lambda>r. case r_level r of None \<Rightarrow> [] | Some l \<Rightarrow> [l]) df))"

definition partial_error_levels :: "row list \<Rightarrow> bool" where
  "partial_error_levels df =
     (list_ex (\<lambda>l. l \<in> set (levels_of df)) [''ERROR'', ''CRITICAL'', ''FATAL'', ''WARN''] \<and>
      list_ex (\<lambda>l. l \<notin> set (levels_of df)) [''ERROR'', ''CRITICAL'', ''FATAL'', ''WARN''])"

text \<open>The rate and the baseline as the claim words them: errors over total, and the mean
  of the rates of the buckets before the bucket.\<close>

definition claimed_rate :: "row list \<Rightarrow> int \<Rightarrow> real" where
  "claimed_rate df h =
     real (length (filter is_error (bucket_rows df h))) / real (length (bucket_rows df h))"

definition earlier_mean :: "row list \<Rightarrow> int \<Rightarrow> real" where
  "earlier_mean df h =
     sum_list (map (claimed_rate df) (filter (\<lambda>b. b < h) (bucket_hours df))) /
       real (length (filter (\<lambda>b. b < h) (bucket_hours df)))"

subsection \<open>Concrete inputs\<close>

text \<open>An environment in which no line is JSON and no timestamp parses, the clock stands at
  0, and the digest is that of the message \<open>x\<close>.\<close>

definition example_env :: env where
  "example_env = \<lparr>json_loads = (\<lambda>s. None), fromisoformat = (\<lambda>s. None),
     strptime = (\<lambda>s f. None), now = 0,
     md5_hexdigest = (\<lambda>s. ''9dd4e461268c8034f5c8564e155c67a6'')\<rparr>"

text \<open>A miner whose \<open>add_log_message\<close> raises, and a store that is up.\<close>

definition failing_miner :: "unit globals" where
  "failing_miner = \<lparr>logparser_drain = False,
     template_miner = Some (\<lambda>msg s. (\<lparr>returned = Inl (OtherError ''RuntimeError''),
                                        id_to_cluster = None\<rparr>, s)),
     store_down = (\<lambda>n. False)\<rparr>"

definition empty_upload :: "unit upload_state" where
  "empty_upload = \<lparr>processed_count = 0, failed_count = 0, logs_collection = [],
     templates_collection = [], miner_state = ()\<rparr>"

text \<open>One row of level ERROR, and four strategies: two return an anomaly, one raises, one
  finds nothing.\<close>

definition one_error_row :: "row list" where
  "one_error_row = [\<lparr>r_timestamp = 0, r_level = Some ''ERROR'', r_message = ''x'',
     r_source = None, r_template_id = PNone, r_template = PNone\<rparr>]"

definition surge :: anomaly where
  "surge = \<lparr>a_timestamp = 0, anomaly_type = ''NEW_TEMPLATE_SURGE'', a_severity = ''HIGH'',
     affected_templates = [1], log_count = 1, score = 1\<rparr>"

definition silence :: anomaly where
  "silence = \<lparr>a_timestamp = 0, anomaly_type = ''SOURCE_SILENCE'', a_severity = ''MEDIUM'',
     affected_templates = [], log_count = 0, score = 6\<rparr>"

definition example_strategies :: strategies where
  "example_strategies = \<lparr>
     detect_new_template_anomalies = (\<lambda>df. Inr [surge]),
     detect_rare_template_anomalies = (\<lambda>df. Inl (OtherError ''boom'')),
     detect_ml_anomalies = (\<lambda>df. Inr []),
     detect_source_anomalies = (\<lambda>df. Inr [silence])\<rparr>"



definition windows_line :: string where
  "windows_line = ''2024-07-10 12:00:01 INFO 4624 Security An error occurred''"

definition firewall_line :: string where
  "firewall_line = ''DENY SRC=1.2.3.4 DST=5.6.7.8 SPT=1000 DPT=22 PROTO=TCP''"

definition apache_line :: string where
  \<open>apache_line = ''web1 - - [t] "GET /10.0.0.5/10.0.0.6 H" 200 5''\<close>

definition json_line :: string where
  \<open>json_line = ''{"level":"INFO","message":"disk error"}''\<close>

definition json_env :: env where
  "json_env = \<lparr>json_loads = (\<lambda>s. if s = json_line
        then Some [(''level'', PStr ''INFO''), (''message'', PStr ''disk error'')] else None),
     fromisoformat = (\<lambda>s. None), strptime = (\<lambda>s f. None), now = 0,
     md5_hexdigest = (\<lambda>s. ''9dd4e461268c8034f5c8564e155c67a6'')\<rparr>"

subsection \<open>The volume detector, in the specification's words\<close>

text \<open>The count of the bucket at a position of the hourly series.\<close>

definition bucket_count :: "row list \<Rightarrow> nat \<Rightarrow> real" where
  "bucket_count df j = real (snd (resample_hourly df ! j))"

text \<open>Mean, sample standard deviation and z-score of bucket \<open>i\<close> over the \<open>w\<close>
  buckets that end at \<open>i\<close>, bucket \<open>i\<close> among them.\<close>

definition window_mean :: "(nat \<Rightarrow> real) \<Rightarrow> nat \<Rightarrow> nat \<Rightarrow> real" where
  "window_mean c w i = (\<Sum>j = i + 1 - w..i. c j) / real w"

definition window_std :: "(nat \<Rightarrow> real) \<Rightarrow> nat \<Rightarrow> nat \<Rightarrow> real" where
  "window_std c w i = sqrt ((\<Sum>j = i + 1 - w..i. (c j - window_mean c w i)\<^sup>2) / real (w - 1))"

definition window_z :: "(nat \<Rightarrow> real) \<Rightarrow> nat \<Rightarrow> nat \<Rightarrow> real" where
  "window_z c w i = (c i - window_mean c w i) / (window_std c w i + 1 / 1000000)"

text \<open>The same over the \<open>w\<close> buckets before \<open>i\<close>, as the claim words it.\<close>

definition prior_mean :: "(nat \<Rightarrow> real) \<Rightarrow> nat \<Rightarrow> nat \<Rightarrow> real" where
  "prior_mean c w i = (\<Sum>j = i - w..<i. c j) / real w"

definition prior_std :: "(nat \<Rightarrow> real) \<Rightarrow> nat \<Rightarrow> nat \<Rightarrow> real" where
  "prior_std c w i = sqrt ((\<Sum>j = i - w..<i. (c j - prior_mean c w i)\<^sup>2) / real (w - 1))"

definition prior_z :: "(nat \<Rightarrow> real) \<Rightarrow> nat \<Rightarrow> nat \<Rightarrow> real" where
  "prior_z c w i = (c i - prior_mean c w i) / (prior_std c w i + 1 / 1000000)"

text \<open>Frames for the volume detector: \<open>n\<close> rows in hour \<open>h\<close>; one row in each of two
  hours and four in the third; one row, fifteen empty hours and sixteen rows in the
  seventeenth.\<close>

definition rows_at :: "int \<Rightarrow> nat \<Rightarrow> row list" where
  "rows_at h n = replicate n \<lparr>r_timestamp = h * 3600, r_level = Some ''INFO'', r_message = ''x'',
     r_source = None, r_template_id = PNone, r_template = PNone\<rparr>"

definition step_up :: "row list" where
  "step_up = rows_at 0 1 @ rows_at 1 1 @ rows_at 2 4"

definition late_burst :: "row list" where
  "late_burst = rows_at 0 1 @ rows_at 16 16"

text \<open>An access line whose request names one address.\<close>

definition apache_line_one :: string where
  \<open>apache_line_one = ''web1 - - [t] "GET /10.0.0.5 H" 200 5''\<close>

text \<open>Frames for the error-rate detector: \<open>n\<close> rows of one level in hour \<open>h\<close>. In
  the first hour of both frames each of the four error levels occurs once among ten rows;
  in the second hour there is one row, an error. The second frame has a third hour with
  one row that is no error.\<close>

definition level_rows :: "int \<Rightarrow> string \<Rightarrow> nat \<Rightarrow> row list" where
  "level_rows h l n = replicate n \<lparr>r_timestamp = h * 3600, r_level = Some l, r_message = ''x'',
     r_source = None, r_template_id = PNone, r_template = PNone\<rparr>"




definition errors_only :: "row list" where
  "errors_only = level_rows 0 ''INFO'' 9 @ level_rows 1 ''ERROR'' 1"


section \<open>Facts about characters and the matcher\<close>










lemma first_some_None: "(first_some (map f ws) = None) = (\<forall>w\<in>set ws. f w = None)"
  by (induction ws) (auto split: option.splits)









lemma take_dropWhile: "take (length s - length (dropWhile P s)) s = takeWhile P s"
  by (induction s) (auto simp: Suc_diff_le length_dropWhile_le)








section \<open>Severity extraction\<close>



section \<open>The template statistics\<close>

text \<open>
  Claim C3. The claim is that \<open>n\<close> upserts of a template raise its stored count by
  \<open>n\<close>, set \<open>last_seen\<close>, and set \<open>first_seen\<close> once. The update document of the
  source names \<open>count\<close> under \<open>$setOnInsert\<close> and under \<open>$inc\<close>, so the store
  rejects every such update before it reads a document: for every template id, template
  information, instant and collection the upsert raises, the handler drops the exception, and
  the collection is what it was. No count is ever stored or incremented.
\<close>

theorem template_upsert_always_conflicts:
  "upsert_template tid info ts templates = Inl WriteError
   \<and> update_template_statistics info ts templates = templates"
proof -
  have "upsert_template tid info ts templates = Inl WriteError" for tid
    by (simp add: upsert_template_def update_one_def template_update_def updated_paths_def)
  then show ?thesis by (simp add: update_template_statistics_def)
qed

section \<open>Pseudo-templates when the miner gives no id\<close>





section \<open>The detection cycle\<close>

lemma foldl_run_detector:
  "foldl (run_detector df) acc ds =
     (fst acc @ concat (map (successes df) ds),
      snd acc @ concat (map (\<lambda>nd. case snd nd df of
                                     Inr anomalies \<Rightarrow> [Running (fst nd), Found (length anomalies) (fst nd)]
                                   | Inl e \<Rightarrow> [Running (fst nd), ErrorIn (fst nd) e]) ds))"
  by (induction ds arbitrary: acc) (auto simp: run_detector_def successes_def split: sum.splits)

lemma foldl_store_up:
  "\<forall>n. \<not> down n \<Longrightarrow> fst (foldl (store_anomaly down) st as) = fst st @ as"
  by (induction as arbitrary: st) (auto simp: store_anomaly_def)

lemma foldl_store_log_started:
  "concat (map started (snd (foldl (store_anomaly down) st as))) = concat (map started (snd st))"
  by (induction as arbitrary: st) (auto simp: store_anomaly_def)

lemma foldl_store_log_errors:
  "concat (map errors_logged (snd (foldl (store_anomaly down) st as))) =
     concat (map errors_logged (snd st))"
  by (induction as arbitrary: st) (auto simp: store_anomaly_def)

lemma started_events:
  "concat (map started (concat (map (\<lambda>nd. case snd nd df of
       Inr anomalies \<Rightarrow> [Running (fst nd), Found (length anomalies) (fst nd)]
     | Inl e \<Rightarrow> [Running (fst nd), ErrorIn (fst nd) e]) ds))) = map fst ds"
  by (induction ds) (auto split: sum.splits)

lemma error_events:
  "concat (map errors_logged (concat (map (\<lambda>nd. case snd nd df of
       Inr anomalies \<Rightarrow> [Running (fst nd), Found (length anomalies) (fst nd)]
     | Inl e \<Rightarrow> [Running (fst nd), ErrorIn (fst nd) e]) ds))) = concat (map (failures df) ds)"
  by (induction ds) (auto simp: failures_def split: sum.splits)

text \<open>
  Claim C9. In every detection cycle all six strategies are started, in order; a strategy
  that raises is logged with its exception and contributes nothing; the anomalies the cycle
  returns are those of the strategies that returned, in order; and when the store accepts
  the inserts, exactly these are appended to the anomalies collection.
\<close>

theorem run_detection_isolates_failures:
  "fst (run_detection sg down df coll) = concat (map (successes df) (detectors sg))
   \<and> concat (map started (snd (snd (run_detection sg down df coll)))) =
       [''Volume'', ''Error Rate'', ''New Templates'', ''Rare Templates'', ''ML-based'', ''Source'']
   \<and> concat (map errors_logged (snd (snd (run_detection sg down df coll)))) =
       concat (map (failures df) (detectors sg))
   \<and> ((\<forall>n. \<not> down n) \<longrightarrow>
        fst (snd (run_detection sg down df coll)) = coll @ concat (map (successes df) (detectors sg)))"
  apply (simp add: run_detection_def Let_def foldl_run_detector foldl_store_up
      foldl_store_log_started foldl_store_log_errors started_events error_events)
  apply (simp add: detectors_def)
  done

theorem run_detection_isolates_failures_witness:
  "fst (run_detection example_strategies (\<lambda>n. False) one_error_row []) = [surge, silence]
   \<and> fst (snd (run_detection example_strategies (\<lambda>n. False) one_error_row [])) = [surge, silence]
   \<and> concat (map errors_logged (snd (snd (run_detection example_strategies (\<lambda>n. False)
        one_error_row [])))) = [(''Error Rate'', KeyError), (''Rare Templates'', OtherError ''boom'')]"
proof -
  have v: "detect_volume_anomalies one_error_row = []"
    by (simp add: detect_volume_anomalies_def one_error_row_def resample_hourly_def)
  have e: "detect_error_rate_anomalies one_error_row = Inl KeyError"
    by (simp add: detect_error_rate_anomalies_def one_error_row_def graded_def hour_index_def
          error_levels_def)
  have s: "concat (map (successes one_error_row) (detectors example_strategies)) = [surge, silence]"
    by (simp add: detectors_def successes_def example_strategies_def v e)
  have f: "concat (map (failures one_error_row) (detectors example_strategies)) =
      [(''Error Rate'', KeyError), (''Rare Templates'', OtherError ''boom'')]"
    by (simp add: detectors_def failures_def example_strategies_def v e)
  have u: "\<forall>n. \<not> (\<lambda>n. False) n" by simp
  from run_detection_isolates_failures[of example_strategies "\<lambda>n. False" one_error_row "[]"] s f u
  show ?thesis by simp
qed

section \<open>The counters of an upload\<close>

lemma stored_lines_length: "length (stored_lines down n ls) \<le> length ls"
  by (induction ls arbitrary: n) (auto intro: le_SucI)

lemma stored_lines_not_blank: "filter is_blank (stored_lines down n ls) = []"
  by (induction ls arbitrary: n) auto

lemma stored_lines_blank: "length (filter is_blank ls) + length (stored_lines down n ls) \<le> length ls"
  by (induction ls arbitrary: n) (auto intro: le_SucI)

lemma stored_lines_up: "(\<And>k. \<not> down k) \<Longrightarrow> stored_lines down n ls = filter (\<lambda>l. \<not> is_blank l) ls"
  by (induction ls arbitrary: n) auto

lemma upload_blank_line:
  "is_blank line \<Longrightarrow>
   upload_line ev g fname fid st line = st\<lparr>failed_count := failed_count st + 1\<rparr>"
  by (simp add: upload_line_def parse_enhanced_log_line_def is_blank_def)

lemma upload_refused_line:
  assumes "\<not> is_blank line" "store_down g (length (logs_collection st))"
  shows "processed_count (upload_line ev g fname fid st line) = processed_count st"
    and "failed_count (upload_line ev g fname fid st line) = failed_count st + 1"
    and "logs_collection (upload_line ev g fname fid st line) = logs_collection st"
  using assms
  by (simp_all add: upload_line_def parse_enhanced_log_line_def is_blank_def
      store_enhanced_log_entry_def split: sum.splits prod.splits)

lemma upload_stored_line:
  assumes "\<not> is_blank line" "\<not> store_down g (length (logs_collection st))"
  shows "processed_count (upload_line ev g fname fid st line) = processed_count st + 1"
    and "failed_count (upload_line ev g fname fid st line) = failed_count st"
    and "\<exists>d. logs_collection (upload_line ev g fname fid st line) = logs_collection st @ [d] \<and>
             Some (doc_entry d) = parse_enhanced_log_line ev line fname"
  using assms
  by (simp_all add: upload_line_def parse_enhanced_log_line_def is_blank_def
      store_enhanced_log_entry_def split: sum.splits prod.splits)

lemma foldl_upload:
  "processed_count (foldl (upload_line ev g fname fid) st ls) =
     processed_count st + length (stored_lines (store_down g) (length (logs_collection st)) ls)
   \<and> failed_count (foldl (upload_line ev g fname fid) st ls) + 
       length (stored_lines (store_down g) (length (logs_collection st)) ls) =
     failed_count st + length ls
   \<and> (\<exists>new. logs_collection (foldl (upload_line ev g fname fid) st ls) = logs_collection st @ new \<and>
        map (\<lambda>d. Some (doc_entry d)) new =
          map (\<lambda>l. parse_enhanced_log_line ev l fname)
            (stored_lines (store_down g) (length (logs_collection st)) ls))"
proof (induction ls arbitrary: st)
  case Nil
  show ?case by simp
next
  case (Cons line rest)
  let ?st = "upload_line ev g fname fid st line"
  note ih = Cons.IH[of ?st]
  consider (blank) "is_blank line"
    | (refused) "\<not> is_blank line" "store_down g (length (logs_collection st))"
    | (stored) "\<not> is_blank line" "\<not> store_down g (length (logs_collection st))"
    by blast
  then show ?case
  proof cases
    case blank
    with ih show ?thesis by (simp add: upload_blank_line)
  next
    case refused
    from ih upload_refused_line[OF refused, of ev fname fid] refused show ?thesis by simp
  next
    case stored
    from upload_stored_line(3)[OF stored, of ev fname fid] obtain d where
      d: "logs_collection ?st = logs_collection st @ [d]"
         "Some (doc_entry d) = parse_enhanced_log_line ev line fname"
      by blast
    from ih obtain new where
      new: "logs_collection (foldl (upload_line ev g fname fid) ?st rest) = logs_collection ?st @ new"
        "map (\<lambda>d. Some (doc_entry d)) new =
          map (\<lambda>l. parse_enhanced_log_line ev l fname)
            (stored_lines (store_down g) (length (logs_collection ?st)) rest)"
      by blast
    have "logs_collection (foldl (upload_line ev g fname fid) st (line # rest)) =
        logs_collection st @ (d # new)"
      using new(1) d(1) by simp
    moreover have "map (\<lambda>d. Some (doc_entry d)) (d # new) =
        map (\<lambda>l. parse_enhanced_log_line ev l fname)
          (stored_lines (store_down g) (length (logs_collection st)) (line # rest))"
      using new(2) d stored by simp
    ultimately have "\<exists>new. logs_collection (foldl (upload_line ev g fname fid) st (line # rest)) =
        logs_collection st @ new \<and>
        map (\<lambda>d. Some (doc_entry d)) new =
          map (\<lambda>l. parse_enhanced_log_line ev l fname)
            (stored_lines (store_down g) (length (logs_collection st)) (line # rest))"
      by blast
    moreover from ih upload_stored_line(1,2)[OF stored, of ev fname fid] stored d(1)
    have "processed_count (foldl (upload_line ev g fname fid) st (line # rest)) =
        processed_count st +
        length (stored_lines (store_down g) (length (logs_collection st)) (line # rest))
      \<and> failed_count (foldl (upload_line ev g fname fid) st (line # rest)) +
        length (stored_lines (store_down g) (length (logs_collection st)) (line # rest)) =
        failed_count st + length (line # rest)"
      by simp
    ultimately show ?thesis by blast
  qed
qed

text \<open>
  Claim C10. For every decoded file, with the lines that splitting the stripped content
  at newlines gives: a line is stored when it is not blank and the store accepts the insert.
  After the loop \<open>processed_logs\<close> is the number of stored lines and \<open>failed_logs\<close> the
  number of the others, so the two add up to the number of lines; the logs collection has
  grown by one document for every stored line, in the order of the file, holding the entry
  parsed from that line; no blank line is among them, and every blank line is counted in
  \<open>failed_logs\<close>. When the store accepts every insert, the stored lines are exactly the
  lines that are not blank.
\<close>

theorem upload_counts:
  "processed_count (upload_lines ev g fname fid txt st) +
     failed_count (upload_lines ev g fname fid txt st) = length (split_nl (strip txt))
   \<and> processed_count (upload_lines ev g fname fid txt st) =
       length (stored_lines (store_down g) (length (logs_collection st)) (split_nl (strip txt)))
   \<and> failed_count (upload_lines ev g fname fid txt st) =
       length (split_nl (strip txt)) -
       length (stored_lines (store_down g) (length (logs_collection st)) (split_nl (strip txt)))
   \<and> length (filter is_blank (split_nl (strip txt))) \<le>
       failed_count (upload_lines ev g fname fid txt st)
   \<and> take (length (logs_collection st)) (logs_collection (upload_lines ev g fname fid txt st)) =
       logs_collection st
   \<and> map (\<lambda>d. Some (doc_entry d))
         (drop (length (logs_collection st))
            (logs_collection (upload_lines ev g fname fid txt st))) =
       map (\<lambda>l. parse_enhanced_log_line ev l fname)
         (stored_lines (store_down g) (length (logs_collection st)) (split_nl (strip txt)))
   \<and> filter is_blank
         (stored_lines (store_down g) (length (logs_collection st)) (split_nl (strip txt))) = []
   \<and> ((\<forall>n. \<not> store_down g n) \<longrightarrow>
        stored_lines (store_down g) (length (logs_collection st)) (split_nl (strip txt)) =
          filter (\<lambda>l. \<not> is_blank l) (split_nl (strip txt)))"
proof -
  let ?st = "st\<lparr>processed_count := 0, failed_count := 0\<rparr>"
  let ?ls = "split_nl (strip txt)"
  let ?kept = "stored_lines (store_down g) (length (logs_collection st)) ?ls"
  let ?fin = "upload_lines ev g fname fid txt st"
  have fin: "?fin = foldl (upload_line ev g fname fid) ?st ?ls" by (simp add: upload_lines_def)
  from foldl_upload[of ev g fname fid ?st ?ls]
  have p: "processed_count ?fin = length ?kept"
    and f: "failed_count ?fin + length ?kept = length ?ls"
    and l: "\<exists>new. logs_collection ?fin = logs_collection st @ new \<and>
        map (\<lambda>d. Some (doc_entry d)) new = map (\<lambda>l. parse_enhanced_log_line ev l fname) ?kept"
    unfolding fin by simp_all
  from l obtain new where new: "logs_collection ?fin = logs_collection st @ new"
    "map (\<lambda>d. Some (doc_entry d)) new = map (\<lambda>l. parse_enhanced_log_line ev l fname) ?kept"
    by blast
  from f have f': "failed_count ?fin = length ?ls - length ?kept" by simp
  from stored_lines_blank[of ?ls "store_down g" "length (logs_collection st)"] f
  have b: "length (filter is_blank ?ls) \<le> failed_count ?fin" by simp
  from p f have s: "processed_count ?fin + failed_count ?fin = length ?ls" by simp
  have t: "take (length (logs_collection st)) (logs_collection ?fin) = logs_collection st"
    unfolding new(1) by simp
  have d: "map (\<lambda>d. Some (doc_entry d)) (drop (length (logs_collection st)) (logs_collection ?fin)) =
      map (\<lambda>l. parse_enhanced_log_line ev l fname) ?kept"
    unfolding new(1) using new(2) by simp
  have u: "(\<forall>n. \<not> store_down g n) \<longrightarrow> ?kept = filter (\<lambda>l. \<not> is_blank l) ?ls"
    using stored_lines_up[of "store_down g"] by blast
  from s p f' b t d stored_lines_not_blank[of "store_down g" "length (logs_collection st)" ?ls] u
  show ?thesis by blast
qed

lemma two_lines_and_a_blank:
  "length (split_nl (strip ''x\<newline>  \<newline>y'')) = 3"
  "stored_lines (store_down failing_miner) (length (logs_collection empty_upload))
     (split_nl (strip ''x\<newline>  \<newline>y'')) = [''x'', ''y'']"
  "map (\<lambda>l. map_option message (parse_enhanced_log_line example_env l ''a.log'')) [''x'', ''y''] =
     [Some ''x'', Some ''y'']"
  "length (logs_collection empty_upload) = 0"
  by code_simp+

theorem upload_counts_witness:
  "processed_count (upload_lines example_env failing_miner ''a.log'' ''f1''
        ''x\<newline>  \<newline>y'' empty_upload) = 2
   \<and> failed_count (upload_lines example_env failing_miner ''a.log'' ''f1''
        ''x\<newline>  \<newline>y'' empty_upload) = 1
   \<and> map (\<lambda>d. message (doc_entry d))
        (logs_collection (upload_lines example_env failing_miner ''a.log'' ''f1''
           ''x\<newline>  \<newline>y'' empty_upload)) = [''x'', ''y'']"
proof -
  let ?fin = "upload_lines example_env failing_miner ''a.log'' ''f1'' ''x\<newline>  \<newline>y'' empty_upload"
  let ?kept = "stored_lines (store_down failing_miner) (length (logs_collection empty_upload))
     (split_nl (strip ''x\<newline>  \<newline>y''))"
  note u = upload_counts[of example_env failing_miner "''a.log''" "''f1''" "''x\<newline>  \<newline>y''"
      empty_upload]
  from u have "processed_count ?fin = length ?kept" by blast
  then have p: "processed_count ?fin = 2" unfolding two_lines_and_a_blank(2) by simp
  from u have "failed_count ?fin = length (split_nl (strip ''x\<newline>  \<newline>y'')) - length ?kept"
    by blast
  then have f: "failed_count ?fin = 1" unfolding two_lines_and_a_blank(1,2) by simp
  from u have "map (\<lambda>d. Some (doc_entry d))
         (drop (length (logs_collection empty_upload)) (logs_collection ?fin)) =
       map (\<lambda>l. parse_enhanced_log_line example_env l ''a.log'') ?kept"
    by blast
  then have "map (\<lambda>d. Some (doc_entry d))
         (drop (length (logs_collection empty_upload)) (logs_collection ?fin)) =
       map (\<lambda>l. parse_enhanced_log_line example_env l ''a.log'') [''x'', ''y'']"
    unfolding two_lines_and_a_blank(2) .
  then have d: "map (\<lambda>d. Some (doc_entry d)) (logs_collection ?fin) =
      map (\<lambda>l. parse_enhanced_log_line example_env l ''a.log'') [''x'', ''y'']"
    unfolding two_lines_and_a_blank(4) by simp
  have "map (map_option message) (map (\<lambda>d. Some (doc_entry d)) (logs_collection ?fin)) =
      map (map_option message)
        (map (\<lambda>l. parse_enhanced_log_line example_env l ''a.log'') [''x'', ''y''])"
    unfolding d ..
  then have "map (\<lambda>d. Some (message (doc_entry d))) (logs_collection ?fin) =
      map (\<lambda>l. map_option message (parse_enhanced_log_line example_env l ''a.log'')) [''x'', ''y'']"
    by (simp only: map_map comp_def option.map)
  then have "map (\<lambda>d. Some (message (doc_entry d))) (logs_collection ?fin) = [Some ''x'', Some ''y'']"
    unfolding two_lines_and_a_blank(3) .
  then have "map (\<lambda>d. message (doc_entry d)) (logs_collection ?fin) = [''x'', ''y'']"
    by (auto simp: map_eq_Cons_conv)
  with p f show ?thesis by simp
qed

section \<open>Dictionaries\<close>

lemma map_of_dict_set: "map_of (dict_set d k v) = (map_of d)(k \<mapsto> v)"
  by (simp add: dict_set_def update_conv')

lemma keys_dict_set: "fst ` set (dict_set d k v) = insert k (fst ` set d)"
  by (simp add: dict_set_def dom_update)

lemma distinct_dict_set: "distinct (map fst d) \<Longrightarrow> distinct (map fst (dict_set d k v))"
  by (simp add: dict_set_def distinct_update)

lemma map_of_dict_update:
  "distinct (map fst e) \<Longrightarrow> map_of (dict_update d e) = map_of d ++ map_of e"
proof (induction e arbitrary: d)
  case Nil
  then show ?case by (simp add: dict_update_def)
next
  case (Cons a e)
  obtain k v where a: "a = (k, v)" by (cases a)
  from Cons.prems a have d: "distinct (map fst e)" and nk: "k \<notin> fst ` set e" by auto
  have "dict_update d (a # e) = dict_update (dict_set d k v) e"
    by (simp add: dict_update_def a)
  then have "map_of (dict_update d (a # e)) = (map_of d)(k \<mapsto> v) ++ map_of e"
    using Cons.IH[OF d, of "dict_set d k v"] by (simp only: map_of_dict_set)
  also have "\<dots> = map_of d ++ map_of (a # e)"
  proof (rule ext)
    fix x
    from nk have "map_of e k = None" by (simp add: map_of_eq_None_iff)
    then show "((map_of d)(k \<mapsto> v) ++ map_of e) x = (map_of d ++ map_of (a # e)) x"
      by (auto simp: a map_add_def split: option.splits)
  qed
  finally show ?case .
qed

lemma extract_network_info_keys:
  "distinct (map fst (extract_network_info msg)) \<and>
   fst ` set (extract_network_info msg) \<subseteq>
     {''ip_addresses'', ''src_ip'', ''dst_ip'', ''ip_address'', ''ports'', ''protocols'', ''mac_addresses''}"
  by (auto simp: extract_network_info_def Let_def keys_dict_set distinct_dict_set split: list.splits)

lemma merged_network_lookup:
  "map_of (merged_network ni msg) k =
     (case map_of (extract_network_info msg) k of Some v' \<Rightarrow> Some v' | None \<Rightarrow> map_of ni k)"
  using extract_network_info_keys[of msg]
  by (simp add: merged_network_def map_of_dict_update map_add_def)

lemma extracted_keys:
  assumes "k \<notin> {''src_ip'', ''dst_ip'', ''ip_address''}"
    "k \<in> {''src_ip'', ''dst_ip'', ''src_port'', ''dst_port'', ''protocol'', ''ip_address''}"
  shows "map_of (extract_network_info msg) k = None"
proof -
  from assms have "k \<notin> {''ip_addresses'', ''src_ip'', ''dst_ip'', ''ip_address'', ''ports'', ''protocols'', ''mac_addresses''}"
    by auto
  with extract_network_info_keys[of msg] have "k \<notin> fst ` set (extract_network_info msg)" by blast
  then show ?thesis by (simp add: map_of_eq_None_iff)
qed

lemma map_protocol_lookup:
  assumes "map_protocol ni = Inr ni'"
  shows "k \<noteq> ''protocol'' \<Longrightarrow> map_of ni' k = map_of ni k"
    and "map_of ni k \<noteq> None \<Longrightarrow> map_of ni' k \<noteq> None"
  using assms
  by (auto simp: map_protocol_def map_of_dict_set split: option.splits pyval.splits if_splits)

lemma finish_entry_network:
  assumes "finish_entry src st = Inr e"
  shows "l_message st = PStr (message e) \<and>
         map_protocol (merged_network (l_network_info st) (message e)) = Inr (network_info e)"
  using assms
  by (auto simp: finish_entry_def split: pyval.splits sum.splits if_splits)

section \<open>Classification of a line\<close>










section \<open>The network map of a record\<close>

lemma map_of_dict_set_other: "k \<noteq> k' \<Longrightarrow> map_of (dict_set d k' v) k = map_of d k"
  by (simp add: map_of_dict_set)

lemma extract_lookup:
  assumes "k \<in> {''src_ip'', ''dst_ip'', ''src_port'', ''dst_port'', ''protocol'', ''ip_address''}"
  shows "map_of (extract_network_info msg) k =
     (if k = ''src_ip'' \<and> 2 \<le> length (addresses msg) then Some (PStr (addresses msg ! 0))
      else if k = ''dst_ip'' \<and> 2 \<le> length (addresses msg) then Some (PStr (addresses msg ! 1))
      else if k = ''ip_address'' \<and> length (addresses msg) = 1 then Some (PStr (addresses msg ! 0))
      else None)"
proof -
  define ips where "ips = addresses msg"
  define n1 where "n1 = (case ips of
                  [] \<Rightarrow> []
                | [a] \<Rightarrow> [(''ip_addresses'', strs ips), (''ip_address'', PStr a)]
                | a # b # rest \<Rightarrow>
                    [(''ip_addresses'', strs ips), (''src_ip'', PStr a), (''dst_ip'', PStr b)])"
  from assms have nk: "k \<noteq> ''ports''" "k \<noteq> ''protocols''" "k \<noteq> ''mac_addresses''"
    "k \<noteq> ''ip_addresses''"
    by auto
  have e: "map_of (extract_network_info msg) k = map_of n1 k"
    unfolding extract_network_info_def Let_def addresses_def[symmetric] ips_def[symmetric]
      n1_def[symmetric]
    by (simp add: map_of_dict_set_other nk)
  have "map_of n1 k =
     (if k = ''src_ip'' \<and> 2 \<le> length ips then Some (PStr (ips ! 0))
      else if k = ''dst_ip'' \<and> 2 \<le> length ips then Some (PStr (ips ! 1))
      else if k = ''ip_address'' \<and> length ips = 1 then Some (PStr (ips ! 0))
      else None)"
  proof (cases ips)
    case Nil
    then show ?thesis by (simp add: n1_def)
  next
    case (Cons a rest)
    show ?thesis
    proof (cases rest)
      case Nil
      with Cons have "n1 = [(''ip_addresses'', strs ips), (''ip_address'', PStr a)]"
        by (simp add: n1_def)
      with Cons Nil nk(4) show ?thesis by simp
    next
      case (Cons b rest')
      with \<open>ips = a # rest\<close>
      have "n1 = [(''ip_addresses'', strs ips), (''src_ip'', PStr a), (''dst_ip'', PStr b)]"
        by (simp add: n1_def)
      with Cons \<open>ips = a # rest\<close> nk(4) show ?thesis by simp
    qed
  qed
  with e show ?thesis by (simp add: ips_def)
qed

lemma foldl_fields_keys:
  "fst ` set (foldl (\<lambda>ni field. case look field of Some v \<Rightarrow> dict_set ni (r field) v | None \<Rightarrow> ni)
                ni0 fs) \<subseteq> fst ` set ni0 \<union> r ` set fs"
proof (induction fs arbitrary: ni0)
  case Nil
  show ?case by simp
next
  case (Cons f fs)
  show ?case
  proof (cases "look f")
    case None
    with Cons[of ni0] show ?thesis by auto
  next
    case (Some v)
    with Cons[of "dict_set ni0 (r f) v"] show ?thesis by (auto simp: keys_dict_set)
  qed
qed

lemma json_network_keys:
  "fst ` set (json_network json_log []) \<subseteq> set json_network_fields"
  using foldl_fields_keys[where look="map_of json_log" and r="\<lambda>f. f" and ?ni0.0="[]"
      and fs=json_network_fields]
  by (simp add: json_network_def)

lemma structured_network_keys:
  "fst ` set (structured_network sd []) \<subseteq> set json_network_fields"
proof -
  have "(\<lambda>f. if f = ''remote_addr'' then ''src_ip'' else f) ` set structured_network_fields
      \<subseteq> set json_network_fields"
    by (simp add: structured_network_fields_def json_network_fields_def)
  with foldl_fields_keys[where look="map_of sd"
      and r="\<lambda>f. if f = ''remote_addr'' then ''src_ip'' else f" and ?ni0.0="[]"
      and fs=structured_network_fields]
  show ?thesis unfolding structured_network_def by simp blast
qed

lemma captured_keys:
  assumes "classify ev line = Inr st"
  shows "fst ` set (l_network_info st) \<subseteq> set json_network_fields"
proof -
  let ?i = "initial_locals ev line"
  define r where "r = (if take 1 (strip line) = ''{''
            then (case json_loads ev line of
                    Some json_log \<Rightarrow> json_stage ev line json_log ?i
                  | None \<Rightarrow> Inr ?i)
            else Inr ?i)"
  have i: "l_network_info ?i = []" "l_log_type ?i = ''unknown''"
    by (simp_all add: initial_locals_def)
  have s: "fst ` set (l_network_info (structured_stage ev line ?i)) \<subseteq> set json_network_fields"
    using structured_network_keys[of "parse_structured_log ev line"]
    by (simp add: structured_stage_def Let_def i)
  have j: "fst ` set (l_network_info st') \<subseteq> set json_network_fields \<and> l_log_type st' = ''json''"
    if "json_stage ev line json_log ?i = Inr st'" for json_log st'
  proof -
    from that have "l_network_info st' = json_network json_log [] \<and> l_log_type st' = ''json''"
      by (auto simp: json_stage_def i split: pyval.splits sum.splits)
    with json_network_keys[of json_log] show ?thesis by simp
  qed
  from assms have c: "(case r of Inl e \<Rightarrow> Inl e
      | Inr st0 \<Rightarrow> Inr (if l_log_type st0 = ''unknown'' then structured_stage ev line st0 else st0))
      = Inr st"
    unfolding classify_def r_def .
  then obtain st0 where r: "r = Inr st0"
    and st: "st = (if l_log_type st0 = ''unknown'' then structured_stage ev line st0 else st0)"
    by (cases r) auto
  from r have "st0 = ?i \<or> (\<exists>json_log. json_stage ev line json_log ?i = Inr st0)"
    unfolding r_def by (auto split: if_splits option.splits)
  then show ?thesis
  proof
    assume "st0 = ?i"
    with st s i(2) show ?thesis by simp
  next
    assume "\<exists>json_log. json_stage ev line json_log ?i = Inr st0"
    then obtain json_log where "json_stage ev line json_log ?i = Inr st0" by blast
    from j[OF this] st show ?thesis by simp
  qed
qed

lemma apache_line_captures:
  "(case classify example_env apache_line of
      Inr st \<Rightarrow> map_of (l_network_info st) ''src_ip'' = Some (PStr ''web1'')
    | Inl x \<Rightarrow> False)"
  by code_simp

lemma apache_line_addresses:
  "(case parse_enhanced_try example_env apache_line ''a.log'' of
      Inr e \<Rightarrow> addresses (message e) = [''10.0.0.5'', ''10.0.0.6'']
    | Inl x \<Rightarrow> False)"
  by code_simp

lemma apache_line_one_captures:
  "(case classify example_env apache_line_one of
      Inr st \<Rightarrow> map_of (l_network_info st) ''src_ip'' = Some (PStr ''web1'')
    | Inl x \<Rightarrow> False)"
  by code_simp

lemma apache_line_one_addresses:
  "(case parse_enhanced_try example_env apache_line_one ''a.log'' of
      Inr e \<Rightarrow> addresses (message e) = [''10.0.0.5'']
    | Inl x \<Rightarrow> False)"
  by code_simp

text \<open>
  Claim C1, as amended. Whenever the assembly of the record does not raise, every key
  of the network map derived from the captures is a key of the record's network map, with
  this value: \<open>src_ip\<close> and \<open>dst_ip\<close> have the first and the second IPv4 address of the
  message when the message has two or more addresses, and their captured values otherwise;
  \<open>ip_address\<close> has the address of the message when the message has exactly one, and its
  captured value otherwise; a captured \<open>protocol\<close> made of digits is replaced by its name
  from the protocol table (or kept when the table has none), and kept when it is not made of
  digits; \<open>src_port\<close> and \<open>dst_port\<close> keep their captured values. The captures give
  no other key.
\<close>

theorem network_augmentation:
  assumes "classify ev line = Inr st" "parse_enhanced_try ev line src = Inr e"
    "map_of (l_network_info st) k = Some v"
  shows "map_of (network_info e) k = Some (merged_value (addresses (message e)) k v)
    \<and> k \<in> {''src_ip'', ''dst_ip'', ''src_port'', ''dst_port'', ''protocol'', ''ip_address''}"
proof -
  from assms(3) have "k \<in> fst ` set (l_network_info st)"
    by (metis domI dom_map_of_conv_image_fst)
  with captured_keys[OF assms(1)]
  have k: "k \<in> {''src_ip'', ''dst_ip'', ''src_port'', ''dst_port'', ''protocol'', ''ip_address''}"
    by (auto simp: json_network_fields_def)
  from assms(1,2) have f: "finish_entry src st = Inr e" by (simp add: parse_enhanced_try_def)
  from finish_entry_network[OF f]
  have mp: "map_protocol (merged_network (l_network_info st) (message e)) = Inr (network_info e)"
    by simp
  let ?ips = "addresses (message e)"
  have mk: "map_of (merged_network (l_network_info st) (message e)) k =
     Some (if k = ''src_ip'' \<and> 2 \<le> length ?ips then PStr (?ips ! 0)
           else if k = ''dst_ip'' \<and> 2 \<le> length ?ips then PStr (?ips ! 1)
           else if k = ''ip_address'' \<and> length ?ips = 1 then PStr (?ips ! 0)
           else v)"
    unfolding merged_network_lookup extract_lookup[OF k] using assms(3) by simp
  have "map_of (network_info e) k = Some (merged_value ?ips k v)"
  proof (cases "k = ''protocol''")
    case False
    with map_protocol_lookup(1)[OF mp, of k] mk show ?thesis by (simp add: merged_value_def)
  next
    case True
    with mk have pv: "map_of (merged_network (l_network_info st) (message e)) ''protocol'' = Some v"
      by simp
    from mp have "Inr (network_info e) =
        map_protocol (merged_network (l_network_info st) (message e))" by simp
    with pv True show ?thesis
      by (cases v)
        (auto simp: map_protocol_def map_of_dict_set merged_value_def protocol_name_def)
  qed
  with k show ?thesis by simp
qed

theorem network_augmentation_witness:
  "(case parse_enhanced_try example_env apache_line_one ''a.log'' of
      Inr e \<Rightarrow> map_of (network_info e) ''src_ip'' = Some (PStr ''web1'')
    | Inl x \<Rightarrow> False)
   \<and> (case parse_enhanced_try example_env apache_line ''a.log'' of
      Inr e \<Rightarrow> map_of (network_info e) ''src_ip'' = Some (PStr ''10.0.0.5'')
    | Inl x \<Rightarrow> False)"
proof -
  from apache_line_one_captures obtain st1 where
    st1: "classify example_env apache_line_one = Inr st1"
      "map_of (l_network_info st1) ''src_ip'' = Some (PStr ''web1'')"
    by (auto split: sum.splits)
  from apache_line_one_addresses obtain e1 where
    e1: "parse_enhanced_try example_env apache_line_one ''a.log'' = Inr e1"
      "addresses (message e1) = [''10.0.0.5'']"
    by (auto split: sum.splits)
  from network_augmentation[OF st1(1) e1(1) st1(2)]
  have 1: "map_of (network_info e1) ''src_ip'' = Some (PStr ''web1'')"
    by (simp add: e1(2) merged_value_def)
  from apache_line_captures obtain st2 where
    st2: "classify example_env apache_line = Inr st2"
      "map_of (l_network_info st2) ''src_ip'' = Some (PStr ''web1'')"
    by (auto split: sum.splits)
  from apache_line_addresses obtain e2 where
    e2: "parse_enhanced_try example_env apache_line ''a.log'' = Inr e2"
      "addresses (message e2) = [''10.0.0.5'', ''10.0.0.6'']"
    by (auto split: sum.splits)
  from network_augmentation[OF st2(1) e2(1) st2(2)]
  have 2: "map_of (network_info e2) ''src_ip'' = Some (PStr ''10.0.0.5'')"
    by (simp add: e2(2) merged_value_def)
  from 1 2 e1(1) e2(1) show ?thesis by simp
qed

text \<open>The claim as it stands fails on an access line whose request names two
  addresses: the captured \<open>src_ip\<close> (from \<open>remote_addr\<close>) is overwritten by the first
  address of the message.\<close>

theorem captured_src_ip_overwritten:
  "(case classify example_env apache_line of
      Inr st \<Rightarrow> map_of (l_network_info st) ''src_ip'' | Inl x \<Rightarrow> None) = Some (PStr ''web1'')
   \<and> map_option (\<lambda>e. map_of (network_info e) ''src_ip'')
        (parse_enhanced_log_line example_env apache_line ''a.log'') = Some (Some (PStr ''10.0.0.5''))"
  by code_simp

section \<open>A captured severity of INFO\<close>

text \<open>
  Claim C5. The claim is that a severity captured from the structured source is the
  record's severity, and in particular that a captured INFO stays INFO whatever the message
  says. The source tests \<open>level == "INFO"\<close> to decide whether a level was determined, so
  a captured INFO is taken for the default and the message is scanned: a Windows event
  line whose level field is INFO, and a JSON line whose \<open>level\<close> is INFO, both get the
  severity ERROR from the word \<open>error\<close> in their message.
\<close>

theorem captured_info_is_overridden:
  "map_of (parse_structured_log example_env windows_line) ''level'' = Some (PStr ''INFO'')
   \<and> map_option level (parse_enhanced_log_line example_env windows_line ''a.log'') =
       Some (Some ''ERROR'')
   \<and> map_option log_type (parse_enhanced_log_line json_env json_line ''a.log'') =
       Some (Some ''json'')
   \<and> map_option level (parse_enhanced_log_line json_env json_line ''a.log'') =
       Some (Some ''ERROR'')"
  by code_simp

text \<open>A captured severity is also lost on a firewall line: the optional group
  \<open>protocol\<close> takes no part in the match, \<open>.isdigit()\<close> on \<open>None\<close> raises, and the
  handler returns the default entry, of level INFO, instead of the captured WARN.\<close>

lemma firewall_capture_lost:
  "map_of (parse_structured_log example_env firewall_line) ''level'' = Some (PStr ''WARN'')
   \<and> parse_enhanced_try example_env firewall_line ''a.log'' = Inl AttributeError
   \<and> map_option level (parse_enhanced_log_line example_env firewall_line ''a.log'') =
       Some (Some ''INFO'')"
  by code_simp

section \<open>The volume detector\<close>

lemma window_as_indices:
  assumes "i < length xs" "w \<le> i + 1"
  shows "take w (drop (i + 1 - w) xs) = map (\<lambda>j. xs ! j) [i + 1 - w..<i + 1]"
proof (rule nth_equalityI)
  show "length (take w (drop (i + 1 - w) xs)) = length (map (\<lambda>j. xs ! j) [i + 1 - w..<i + 1])"
    using assms by (simp del: upt_Suc)
next
  fix k assume "k < length (take w (drop (i + 1 - w) xs))"
  then have k: "k < w" by simp
  with assms show "take w (drop (i + 1 - w) xs) ! k = map (\<lambda>j. xs ! j) [i + 1 - w..<i + 1] ! k"
    by (simp del: upt_Suc)
qed

lemma sum_list_window:
  "sum_list (map f (map (\<lambda>j. xs ! j) [a..<Suc i])) = (\<Sum>j = a..i. f (xs ! j))"
  by (simp add: interv_sum_list_conv_sum_set_nat comp_def atLeastLessThanSuc_atLeastAtMost
        del: upt_Suc)

lemma z_score_window:
  assumes "i < length xs" "2 \<le> w"
  shows "z_score w xs i =
     (if w \<le> i + 1 then Some (window_z (\<lambda>j. xs ! j) w i) else None)"
proof (cases "w \<le> i + 1")
  case False
  then show ?thesis using assms by (simp add: z_score_def rolling_window_def)
next
  case True
  let ?win = "map (\<lambda>j. xs ! j) [Suc i - w..<Suc i]"
  have win: "rolling_window w xs i = Some ?win"
    using True assms window_as_indices[OF assms(1) True]
    by (simp add: rolling_window_def del: upt_Suc)
  have len: "length ?win = w" using True by (simp del: upt_Suc)
  have s1: "sum_list ?win = (\<Sum>j = Suc i - w..i. xs ! j)"
    using sum_list_window[of "\<lambda>x. x" xs "Suc i - w" i] by (simp del: upt_Suc)
  have mean: "mean_of ?win = window_mean (\<lambda>j. xs ! j) w i"
    unfolding mean_of_def window_mean_def len s1 by simp
  have s2: "sum_list (map (\<lambda>x. (x - window_mean (\<lambda>j. xs ! j) w i)\<^sup>2) ?win) =
      (\<Sum>j = Suc i - w..i. (xs ! j - window_mean (\<lambda>j. xs ! j) w i)\<^sup>2)"
    by (rule sum_list_window)
  have std: "std_of ?win = window_std (\<lambda>j. xs ! j) w i"
    unfolding std_of_def window_std_def len mean s2 by simp
  have "z_score w xs i = Some ((xs ! i - mean_of ?win) / (std_of ?win + epsilon))"
    unfolding z_score_def win by simp
  then show ?thesis
    unfolding mean std using True by (simp add: window_z_def epsilon_def)
qed

lemma window_z_cong:
  assumes "\<And>j. j \<le> i \<Longrightarrow> c j = c' j"
  shows "window_z c w i = window_z c' w i"
proof -
  have m: "window_mean c w i = window_mean c' w i"
    unfolding window_mean_def using assms by (auto intro!: sum.cong arg_cong2[where f="(/)"])
  have s: "window_std c w i = window_std c' w i"
    unfolding window_std_def m using assms
    by (auto intro!: sum.cong arg_cong[where f=sqrt] arg_cong2[where f="(/)"])
  show ?thesis unfolding window_z_def m s using assms[of i] by simp
qed

lemma volume_at_window:
  assumes "i < length hourly" "2 \<le> w"
  shows "volume_at hourly w i =
     (if w \<le> i + 1 \<and> \<bar>window_z (\<lambda>j. real (snd (hourly ! j))) w i\<bar> > 3
      then [volume_anomaly (hourly ! i) (window_z (\<lambda>j. real (snd (hourly ! j))) w i)]
      else [])"
proof -
  let ?xs = "map (\<lambda>b. real (snd b)) hourly"
  have "window_z (\<lambda>j. ?xs ! j) w i = window_z (\<lambda>j. real (snd (hourly ! j))) w i"
    using assms(1) by (intro window_z_cong) simp
  with z_score_window[of i ?xs w] assms show ?thesis
    by (simp add: volume_at_def volume_spike_threshold_def)
qed

lemma step_up_hourly: "resample_hourly step_up = [(0, 1), (1, 1), (2, 4)]"
  by code_simp

lemma late_burst_hourly:
  "resample_hourly late_burst =
     [(0, 1), (1, 0), (2, 0), (3, 0), (4, 0), (5, 0), (6, 0), (7, 0), (8, 0), (9, 0), (10, 0),
      (11, 0), (12, 0), (13, 0), (14, 0), (15, 0), (16, 16)]"
  by code_simp

lemma window_std_nonneg: "0 \<le> window_std c w i"
  by (simp add: window_std_def sum_nonneg)

lemma window_z_bound:
  assumes "1 \<le> window_std c w i"
  shows "\<bar>window_z c w i\<bar> \<le> \<bar>c i - window_mean c w i\<bar>"
proof -
  have "\<bar>window_z c w i\<bar> = \<bar>c i - window_mean c w i\<bar> / (window_std c w i + 1 / 1000000)"
    using assms by (simp add: window_z_def)
  also have "\<dots> \<le> \<bar>c i - window_mean c w i\<bar> / 1"
    using assms by (intro divide_left_mono) simp_all
  finally show ?thesis by simp
qed

lemma window_of_two:
  "window_mean c 2 (Suc i) = (c i + c (Suc i)) / 2"
  "window_std c 2 (Suc i) =
     sqrt ((c i - window_mean c 2 (Suc i))\<^sup>2 + (c (Suc i) - window_mean c 2 (Suc i))\<^sup>2)"
  by (simp_all add: window_mean_def window_std_def)

lemma step_up_quiet: "detect_volume_anomalies step_up = []"
proof -
  define c where "c = (\<lambda>j. real (snd (resample_hourly step_up ! j)))"
  have c: "c 0 = 1" "c (Suc 0) = 1" "c (Suc (Suc 0)) = 4"
    by (simp_all add: c_def step_up_hourly)
  have z1: "window_z c 2 (Suc 0) = 0"
    by (simp add: window_z_def window_of_two c)
  have m2: "window_mean c 2 (Suc (Suc 0)) = 5 / 2"
    by (simp add: window_of_two c)
  have "window_std c 2 (Suc (Suc 0)) = sqrt (9 / 2)"
    unfolding window_of_two(2) m2 c by (simp add: power2_eq_square)
  then have "1 \<le> window_std c 2 (Suc (Suc 0))" by simp
  from window_z_bound[OF this] have z2: "\<bar>window_z c 2 (Suc (Suc 0))\<bar> \<le> 3"
    by (simp add: m2 c)
  have l: "length (resample_hourly step_up) = 3" by (simp add: step_up_hourly)
  have "volume_at (resample_hourly step_up) 2 i = []" if "i < 3" for i
  proof -
    from that have "i = 0 \<or> i = Suc 0 \<or> i = Suc (Suc 0)" by arith
    with z1 z2 show ?thesis
      using volume_at_window[of i "resample_hourly step_up" 2] l
      by (auto simp: c_def)
  qed
  then have "concat (map (volume_at (resample_hourly step_up) 2) [0..<3]) = []"
    by simp
  moreover have "step_up \<noteq> []" by (simp add: step_up_def rows_at_def)
  ultimately show ?thesis
    by (simp add: detect_volume_anomalies_def Let_def l del: upt_Suc)
qed

lemma late_burst_window:
  "window_mean (bucket_count late_burst) 16 16 = 1"
  "bucket_count late_burst 16 = 16"
  "(\<Sum>j = 16 + 1 - 16..16. (bucket_count late_burst j - 1)\<^sup>2) / real (16 - 1) = 16"
  "window_mean (bucket_count late_burst) 16 15 = 1 / 16"
  "bucket_count late_burst 15 = 0"
  "(\<Sum>j = 15 + 1 - 16..15. (bucket_count late_burst j - 1 / 16)\<^sup>2) / real (16 - 1) = 1 / 16"
  unfolding window_mean_def bucket_count_def late_burst_hourly by code_simp+

lemma late_burst_z:
  "window_z (bucket_count late_burst) 16 16 = 15 / (4 + 1 / 1000000)"
  "window_z (bucket_count late_burst) 16 15 = - (1 / 16) / (1 / 4 + 1 / 1000000)"
proof -
  have "window_std (bucket_count late_burst) 16 16 = sqrt 16"
    unfolding window_std_def late_burst_window ..
  also have "\<dots> = 4" using real_sqrt_abs[of 4] by simp
  finally have s16: "window_std (bucket_count late_burst) 16 16 = 4" .
  show "window_z (bucket_count late_burst) 16 16 = 15 / (4 + 1 / 1000000)"
    unfolding window_z_def s16 late_burst_window by simp
  have "window_std (bucket_count late_burst) 16 15 = sqrt (1 / 16)"
    unfolding window_std_def late_burst_window ..
  also have "\<dots> = 1 / 4" using real_sqrt_abs[of "1 / 4"] by (simp add: power2_eq_square)
  finally have s15: "window_std (bucket_count late_burst) 16 15 = 1 / 4" .
  show "window_z (bucket_count late_burst) 16 15 = - (1 / 16) / (1 / 4 + 1 / 1000000)"
    unfolding window_z_def s15 late_burst_window by simp
qed

lemma upt_17: "[0..<17] = [0, 1, 2, 3, 4, 5, 6, 7, 8, 9, 10, 11, 12, 13, 14, 15, 16::nat]"
  by code_simp

text \<open>What the detector computes. With fewer than three hourly buckets it reports
  nothing. Otherwise, with \<open>N\<close> buckets and \<open>w = min(24, N - 1)\<close>, mean and standard
  deviation of a bucket are taken over the \<open>w\<close> buckets that end at that bucket, the
  bucket itself among them; a bucket with fewer than \<open>w - 1\<close> predecessors has no z-score.
  Every other bucket with \<open>|z| > 3\<close> gives one anomaly.\<close>

lemma volume_detector_window:
  "detect_volume_anomalies df =
     (let hourly = resample_hourly df;
          N = length hourly;
          w = min 24 (N - 1);
          z = window_z (bucket_count df) w
      in if N < 3 then []
         else concat (map (\<lambda>i. if w \<le> i + 1 \<and> \<bar>z i\<bar> > 3
                 then [\<lparr>a_timestamp = fst (hourly ! i) * 3600,
                        anomaly_type = (if z i > 0 then ''VOLUME_SPIKE'' else ''VOLUME_DROP''),
                        a_severity = (if \<bar>z i\<bar> > 5 then ''HIGH'' else ''MEDIUM''),
                        affected_templates = [],
                        log_count = snd (hourly ! i),
                        score = \<bar>z i\<bar>\<rparr>]
                 else []) [0..<N]))"
proof (cases "length (resample_hourly df) < 3")
  case True
  then show ?thesis by (simp add: detect_volume_anomalies_def Let_def)
next
  case False
  define hourly where "hourly = resample_hourly df"
  define w where "w = min 24 (length hourly - 1)"
  define z where "z = window_z (bucket_count df) w"
  define g where "g = (\<lambda>i. if w \<le> i + 1 \<and> \<bar>z i\<bar> > 3
                 then [\<lparr>a_timestamp = fst (hourly ! i) * 3600,
                        anomaly_type = (if z i > 0 then ''VOLUME_SPIKE'' else ''VOLUME_DROP''),
                        a_severity = (if \<bar>z i\<bar> > 5 then ''HIGH'' else ''MEDIUM''),
                        affected_templates = [],
                        log_count = snd (hourly ! i),
                        score = \<bar>z i\<bar>\<rparr>]
                 else [])"
  from False have n: "\<not> length hourly < 3" by (simp add: hourly_def)
  then have ne: "df \<noteq> []" by (auto simp: hourly_def resample_hourly_def)
  from n have w: "2 \<le> w" by (simp add: w_def)
  have c: "(\<lambda>j. real (snd (hourly ! j))) = bucket_count df"
    by (simp add: bucket_count_def hourly_def fun_eq_iff)
  have at: "volume_at hourly w i = g i" if "i < length hourly" for i
    unfolding volume_at_window[OF that w] c g_def z_def volume_anomaly_def by simp
  have eq: "map (volume_at hourly w) [0..<length hourly] = map g [0..<length hourly]"
    by (rule map_cong[OF refl]) (simp add: at)
  have l: "detect_volume_anomalies df = concat (map (volume_at hourly w) [0..<length hourly])"
    unfolding detect_volume_anomalies_def Let_def hourly_def[symmetric] w_def[symmetric]
    using n ne by simp
  have r: "(let hourly = resample_hourly df;
          N = length hourly;
          w = min 24 (N - 1);
          z = window_z (bucket_count df) w
      in if N < 3 then []
         else concat (map (\<lambda>i. if w \<le> i + 1 \<and> \<bar>z i\<bar> > 3
                 then [\<lparr>a_timestamp = fst (hourly ! i) * 3600,
                        anomaly_type = (if z i > 0 then ''VOLUME_SPIKE'' else ''VOLUME_DROP''),
                        a_severity = (if \<bar>z i\<bar> > 5 then ''HIGH'' else ''MEDIUM''),
                        affected_templates = [],
                        log_count = snd (hourly ! i),
                        score = \<bar>z i\<bar>\<rparr>]
                 else []) [0..<N])) = concat (map g [0..<length hourly])"
    unfolding Let_def hourly_def[symmetric] w_def[symmetric] z_def[symmetric] g_def[symmetric]
    using n by simp
  show ?thesis unfolding l r eq ..
qed

lemma late_burst_reported:
  "detect_volume_anomalies late_burst =
     [\<lparr>a_timestamp = 57600, anomaly_type = ''VOLUME_SPIKE'', a_severity = ''MEDIUM'',
       affected_templates = [], log_count = 16, score = 15 / (4 + 1 / 1000000)\<rparr>]"
proof -
  have l: "length (resample_hourly late_burst) = 17" by (simp add: late_burst_hourly)
  have b: "resample_hourly late_burst ! 16 = (16, 16)" by (simp add: late_burst_hourly)
  show ?thesis
    unfolding volume_detector_window[of late_burst] Let_def l upt_17
    by (simp add: late_burst_z b)
qed

text \<open>The window that contains its last bucket bounds the z-score of that bucket: the
  square of a sum is at most the number of summands times the sum of the squares, so the
  deviation of one bucket from the mean of \<open>w\<close> buckets, itself among them, is at most
  \<open>(w - 1) / sqrt w\<close> standard deviations. For \<open>w\<close> up to 24 that is less than 5.\<close>

lemma sum_squared_le:
  fixes f :: "'a \<Rightarrow> real"
  assumes "finite A"
  shows "(\<Sum>j\<in>A. f j)\<^sup>2 \<le> real (card A) * (\<Sum>j\<in>A. (f j)\<^sup>2)"
  using assms
proof (induction A)
  case empty
  show ?case by simp
next
  case (insert x A)
  define s where "s = (\<Sum>j\<in>A. f j)"
  define q where "q = (\<Sum>j\<in>A. (f j)\<^sup>2)"
  define n where "n = real (card A)"
  define a where "a = f x"
  have ih: "s\<^sup>2 \<le> n * q" using insert.IH by (simp add: s_def q_def n_def)
  have n0: "0 \<le> n" by (simp add: n_def)
  have q0: "0 \<le> q" by (simp add: q_def sum_nonneg)
  have cross: "2 * a * s \<le> n * a\<^sup>2 + q"
  proof (cases "n = 0")
    case True
    with insert.hyps have "A = {}" by (simp add: n_def)
    then have "s = 0" by (simp add: s_def)
    with q0 True show ?thesis by simp
  next
    case False
    with n0 have np: "0 < n" by simp
    have "0 \<le> (n * a - s)\<^sup>2" by simp
    then have "2 * (n * a) * s \<le> (n * a)\<^sup>2 + s\<^sup>2" by (simp add: power2_diff)
    also have "\<dots> \<le> (n * a)\<^sup>2 + n * q" using ih by simp
    finally have "n * (2 * a * s) \<le> n * (n * a\<^sup>2 + q)"
      by (simp add: algebra_simps power2_eq_square)
    with np show ?thesis by (simp only: mult_le_cancel_left_pos)
  qed
  have "(\<Sum>j\<in>insert x A. f j)\<^sup>2 = a\<^sup>2 + 2 * a * s + s\<^sup>2"
    using insert.hyps by (simp add: s_def a_def power2_sum)
  also have "\<dots> \<le> a\<^sup>2 + (n * a\<^sup>2 + q) + n * q" using cross ih by simp
  also have "\<dots> = (n + 1) * (a\<^sup>2 + q)" by (simp add: algebra_simps)
  also have "\<dots> = real (card (insert x A)) * (\<Sum>j\<in>insert x A. (f j)\<^sup>2)"
    using insert.hyps by (simp add: n_def q_def a_def)
  finally show ?case .
qed

lemma deviation_bound:
  fixes c :: "nat \<Rightarrow> real"
  assumes "finite W" "i \<in> W" "card W = w" "2 \<le> w" "mu = (\<Sum>j\<in>W. c j) / real w"
  shows "real w * (c i - mu)\<^sup>2 \<le> real (w - 1) * (\<Sum>j\<in>W. (c j - mu)\<^sup>2)"
proof -
  define d where "d = (\<lambda>j. c j - mu)"
  have w0: "real w \<noteq> 0" using assms(4) by simp
  have "(\<Sum>j\<in>W. d j) = (\<Sum>j\<in>W. c j) - real w * mu"
    by (simp add: d_def sum_subtractf assms(3))
  also have "\<dots> = 0" using w0 by (simp add: assms(5))
  finally have z: "(\<Sum>j\<in>W. d j) = 0" .
  have r1: "(\<Sum>j\<in>W. d j) = d i + (\<Sum>j\<in>W - {i}. d j)"
    using assms(1,2) by (rule sum.remove)
  have r2: "(\<Sum>j\<in>W. (d j)\<^sup>2) = (d i)\<^sup>2 + (\<Sum>j\<in>W - {i}. (d j)\<^sup>2)"
    using assms(1,2) by (rule sum.remove)
  from z r1 have o: "(\<Sum>j\<in>W - {i}. d j) = - d i" by simp
  have cd: "card (W - {i}) = w - 1" using assms(1,2,3) by simp
  from sum_squared_le[of "W - {i}" d] assms(1)
  have "(d i)\<^sup>2 \<le> real (w - 1) * (\<Sum>j\<in>W - {i}. (d j)\<^sup>2)"
    by (simp add: o cd)
  then have "(d i)\<^sup>2 \<le> real (w - 1) * ((\<Sum>j\<in>W. (d j)\<^sup>2) - (d i)\<^sup>2)"
    by (simp add: r2)
  then have "(d i)\<^sup>2 + real (w - 1) * (d i)\<^sup>2 \<le> real (w - 1) * (\<Sum>j\<in>W. (d j)\<^sup>2)"
    by (simp add: algebra_simps)
  moreover have "(d i)\<^sup>2 + real (w - 1) * (d i)\<^sup>2 = real w * (d i)\<^sup>2"
    using assms(4) by (simp add: algebra_simps of_nat_diff)
  ultimately show ?thesis by (simp add: d_def)
qed

lemma window_z_le:
  assumes "2 \<le> w" "w \<le> i + 1" "(w - 1) * (w - 1) \<le> k * k * w"
  shows "\<bar>window_z c w i\<bar> \<le> real k"
proof -
  define W where "W = {i + 1 - w..i}"
  define mu where "mu = window_mean c w i"
  define S where "S = (\<Sum>j\<in>W. (c j - mu)\<^sup>2)"
  define v where "v = S / real (w - 1)"
  define a where "a = c i - mu"
  have fin: "finite W" by (simp add: W_def)
  have mem: "i \<in> W" using assms by (simp add: W_def)
  have card: "card W = w" using assms by (simp add: W_def)
  have mu: "mu = (\<Sum>j\<in>W. c j) / real w" by (simp add: mu_def window_mean_def W_def)
  have S0: "0 \<le> S" by (simp add: S_def sum_nonneg)
  have w1: "0 < real (w - 1)" using assms(1) by simp
  have v0: "0 \<le> v" using S0 w1 by (simp add: v_def)
  have std: "window_std c w i = sqrt v"
    by (simp add: window_std_def v_def S_def W_def mu_def)
  from deviation_bound[OF fin mem card assms(1) mu]
  have "real w * a\<^sup>2 \<le> real (w - 1) * S" by (simp add: a_def S_def)
  also have "\<dots> = (real (w - 1))\<^sup>2 * v" using w1 by (simp add: v_def power2_eq_square)
  also have "\<dots> \<le> ((real k)\<^sup>2 * real w) * v"
  proof (rule mult_right_mono[OF _ v0])
    from assms(3) have "real ((w - 1) * (w - 1)) \<le> real (k * k * w)" by (rule of_nat_mono)
    then show "(real (w - 1))\<^sup>2 \<le> (real k)\<^sup>2 * real w" by (simp add: power2_eq_square)
  qed
  finally have "real w * a\<^sup>2 \<le> real w * ((real k)\<^sup>2 * v)" by (simp add: algebra_simps)
  moreover have "0 < real w" using assms(1) by simp
  ultimately have "a\<^sup>2 \<le> (real k)\<^sup>2 * v" by (simp only: mult_le_cancel_left_pos)
  also have "\<dots> = (real k * sqrt v)\<^sup>2" using v0 by (simp add: power_mult_distrib)
  finally have "\<bar>a\<bar> \<le> real k * sqrt v"
    using v0 by (intro power2_le_imp_le[of "\<bar>a\<bar>"]) simp_all
  also have "\<dots> \<le> real k * (sqrt v + 1 / 1000000)" by (intro mult_left_mono) simp_all
  finally have b: "\<bar>a\<bar> \<le> real k * (sqrt v + 1 / 1000000)" .
  have p: "0 < sqrt v + 1 / 1000000" using v0 by (simp add: add_nonneg_pos)
  have "\<bar>window_z c w i\<bar> = \<bar>a\<bar> / (sqrt v + 1 / 1000000)"
    using p by (simp add: window_z_def std a_def mu_def)
  also have "\<dots> \<le> real k" using b p by (simp add: pos_divide_le_eq)
  finally show ?thesis .
qed

lemma window_z_at_most_5:
  assumes "2 \<le> w" "w \<le> 24" "w \<le> i + 1"
  shows "\<bar>window_z c w i\<bar> \<le> 5"
proof -
  have "(w - 1) * (w - 1) \<le> 5 * 5 * w" using assms(2) by (intro mult_mono) simp_all
  from window_z_le[OF assms(1) assms(3) this, of c] show ?thesis by simp
qed

lemma window_z_at_most_3:
  assumes "2 \<le> w" "w \<le> 10" "w \<le> i + 1"
  shows "\<bar>window_z c w i\<bar> \<le> 3"
proof -
  have "(w - 1) * (w - 1) \<le> 9 * (w - 1)" using assms(2) by (intro mult_right_mono) simp_all
  also have "\<dots> \<le> 3 * 3 * w" by simp
  finally have "(w - 1) * (w - 1) \<le> 3 * 3 * w" .
  from window_z_le[OF assms(1) assms(3) this, of c] show ?thesis by simp
qed

text \<open>So the detector never reports the severity HIGH that its last branch names.\<close>

lemma volume_never_high:
  assumes "a \<in> set (detect_volume_anomalies df)"
  shows "a_severity a = ''MEDIUM''"
proof -
  define hourly where "hourly = resample_hourly df"
  define w where "w = min 24 (length hourly - 1)"
  define z where "z = window_z (bucket_count df) w"
  define g where "g = (\<lambda>i. if w \<le> i + 1 \<and> \<bar>z i\<bar> > 3
                 then [\<lparr>a_timestamp = fst (hourly ! i) * 3600,
                        anomaly_type = (if z i > 0 then ''VOLUME_SPIKE'' else ''VOLUME_DROP''),
                        a_severity = (if \<bar>z i\<bar> > 5 then ''HIGH'' else ''MEDIUM''),
                        affected_templates = [],
                        log_count = snd (hourly ! i),
                        score = \<bar>z i\<bar>\<rparr>]
                 else [])"
  have n: "\<not> length hourly < 3"
  proof
    assume "length hourly < 3"
    then have "detect_volume_anomalies df = []"
      unfolding volume_detector_window[of df] Let_def hourly_def by simp
    with assms show False by simp
  qed
  have "detect_volume_anomalies df = concat (map g [0..<length hourly])"
    unfolding volume_detector_window[of df] Let_def hourly_def[symmetric] w_def[symmetric]
      z_def[symmetric] g_def[symmetric]
    using n by simp
  with assms obtain i where i: "a \<in> set (g i)" by auto
  then have wi: "w \<le> i + 1" by (auto simp: g_def split: if_splits)
  from n have w2: "2 \<le> w" "w \<le> 24" by (simp_all add: w_def)
  from window_z_at_most_5[OF w2 wi, of "bucket_count df"] have "\<not> \<bar>z i\<bar> > 5"
    by (simp add: z_def)
  with i show ?thesis by (auto simp: g_def split: if_splits)
qed

text \<open>And with fewer than twelve hourly buckets it reports nothing at all.\<close>

lemma volume_needs_twelve_buckets:
  assumes "length (resample_hourly df) < 12"
  shows "detect_volume_anomalies df = []"
proof (cases "length (resample_hourly df) < 3")
  case True
  then show ?thesis unfolding volume_detector_window[of df] Let_def by simp
next
  case False
  define hourly where "hourly = resample_hourly df"
  define w where "w = min 24 (length hourly - 1)"
  from False assms have w: "2 \<le> w" "w \<le> 10" by (simp_all add: w_def hourly_def)
  have nz: "\<bar>window_z (bucket_count df) w i\<bar> \<le> 3" if "w \<le> Suc i" for i
    using window_z_at_most_3[OF w, of i "bucket_count df"] that by simp
  show ?thesis
    unfolding volume_detector_window[of df] Let_def hourly_def[symmetric] w_def[symmetric]
    using False by (auto simp: hourly_def dest!: nz)
qed

text \<open>
  Claim C6. The claim takes mean and standard deviation of a bucket over the
  \<open>min(24, N - 1)\<close> buckets before it, and reports the bucket when \<open>|z| > 3\<close>, with
  severity HIGH when \<open>|z| > 5\<close>. The window of the detector ends at the bucket and
  contains it. On one row in each of two hours and four rows in the third, the z-score of
  the third bucket over the two buckets before it is three million, for which the claim
  reports a VOLUME_SPIKE of severity HIGH; the detector reports nothing.
\<close>

theorem prior_window_disagrees:
  "detect_volume_anomalies step_up = [] \<and> 5 < prior_z (bucket_count step_up) 2 2"
proof -
  have c: "bucket_count step_up 0 = 1" "bucket_count step_up (Suc 0) = 1"
      "bucket_count step_up 2 = 4"
    by (simp_all add: bucket_count_def step_up_hourly)
  have i: "{0..<2::nat} = {0, Suc 0}" by auto
  have m: "prior_mean (bucket_count step_up) 2 2 = 1" by (simp add: prior_mean_def i c)
  have "prior_std (bucket_count step_up) 2 2 = 0" by (simp add: prior_std_def m i c)
  then have "prior_z (bucket_count step_up) 2 2 = 3000000" by (simp add: prior_z_def m c)
  with step_up_quiet show ?thesis by simp
qed

section \<open>The error-rate detector\<close>

lemma graded_hours: "map fst (graded df) = map (\<lambda>r. hour_of (r_timestamp r)) (leveled df)"
  by (induction df) (auto simp: graded_def leveled_def split: option.splits)

lemma graded_levels: "snd ` set (graded df) = set (levels_of df)"
proof -
  have "snd ` set (graded df) = {l. \<exists>r\<in>set df. r_level r = Some l}"
    by (force simp: graded_def image_iff split: option.splits)
  moreover have "set (levels_of df) = {l. \<exists>r\<in>set df. r_level r = Some l}"
    by (force simp: levels_of_def split: option.splits)
  ultimately show ?thesis by simp
qed







lemma key_error_partial:
  "(list_ex (\<lambda>col. col \<in> snd ` set (graded df)) error_levels \<and>
    \<not> list_all (\<lambda>col. col \<in> snd ` set (graded df)) error_levels) = partial_error_levels df"
proof -
  have "snd ` set (graded df) = set (levels_of df)" by (rule graded_levels)
  then show ?thesis
    by (simp add: partial_error_levels_def error_levels_def)
qed

text \<open>The detector raises \<open>KeyError\<close> exactly when some, but not all, of the four error
  levels occur in the frame: \<open>df_hourly[error_levels]\<close> needs all four columns.\<close>

lemma error_rate_key_error:
  "(detect_error_rate_anomalies df = Inl e) =
     (e = KeyError \<and> partial_error_levels df \<and> leveled df \<noteq> [])"
proof -
  have "set (hour_index (graded df)) = set (map (\<lambda>r. hour_of (r_timestamp r)) (leveled df))"
    by (simp add: hour_index_def graded_hours)
  then have "(set (hour_index (graded df)) = {}) = (set (leveled df) = {})" by simp
  then have "(hour_index (graded df) = []) = (leveled df = [])" by (simp only: set_empty)
  moreover have "leveled df \<noteq> [] \<Longrightarrow> df \<noteq> []" by (auto simp: leveled_def)
  ultimately show ?thesis
    unfolding detect_error_rate_anomalies_def key_error_partial by auto
qed





text \<open>Apart from that, a frame in which only some of the four error levels occur makes
  the detector raise: nine rows of level INFO and then one of level ERROR, where the claim
  reports the second hour, give \<open>KeyError\<close>.\<close>

lemma error_column_missing:
  "detect_error_rate_anomalies errors_only = Inl KeyError
   \<and> 1 / 10 < claimed_rate errors_only 1
   \<and> 2 * earlier_mean errors_only 1 < claimed_rate errors_only 1"
  by code_simp


end
